theory Spec2Isabelle
  imports Complex_Main
begin

section \<open>Python values used by the matcher\<close>

text \<open>
  The matcher (\<^verbatim>\<open>swfusion/match_era5_smap.py\<close>, class \<^verbatim>\<open>matchManager\<close>) is
  embedded function by function. Python floats are read as real numbers, so every
  statement below is about the exact arithmetic of the formulas, not about rounding.
  Exceptions are values: a call either completes or raises. \<^verbatim>\<open>exit(msg)\<close> raises
  \<^verbatim>\<open>SystemExit\<close>, which is not an \<^verbatim>\<open>Exception\<close> and therefore passes through
  every \<^verbatim>\<open>except Exception\<close> handler up to the interpreter, ending the run.
\<close>

datatype exn = ZeroDivisionError | IndexError | KeyError | ValueError | TypeError
  | Failure string

datatype signal = Exception exn | SystemExit exn

text \<open>A procedure acts on a world \<open>'w\<close> (what the run has done so far) and either
  completes (\<open>None\<close>) or stops with a signal.\<close>

type_synonym 'w proc = "'w \<Rightarrow> signal option \<times> 'w"

text \<open>\<^verbatim>\<open>try: body  except Exception as msg: breakpoint(); exit(msg)\<close>\<close>

definition try_except_exit :: "'w proc \<Rightarrow> 'w proc" where
  "try_except_exit body w =
     (case body w of
        (Some (Exception msg), w') \<Rightarrow> (Some (SystemExit msg), w')
      | r \<Rightarrow> r)"

text \<open>\<^verbatim>\<open>for k in ks: body(k)\<close>, stopping at the first signal.\<close>

fun for_each :: "'k list \<Rightarrow> ('k \<Rightarrow> 'w proc) \<Rightarrow> 'w proc" where
  "for_each [] body w = (None, w)"
| "for_each (k # ks) body w =
     (case body k w of
        (None, w') \<Rightarrow> for_each ks body w'
      | (Some s, w') \<Rightarrow> (Some s, w'))"

subsection \<open>\<^verbatim>\<open>datetime\<close>\<close>

record date =
  year :: int
  month :: int
  day :: int

record time =
  hour :: int
  minute :: int
  second :: int

record datetime =
  the_date :: date
  the_time :: time

record timedelta =
  days :: int
  seconds :: int

definition is_leap :: "int \<Rightarrow> bool" where
  "is_leap y = (y mod 4 = 0 \<and> (y mod 100 \<noteq> 0 \<or> y mod 400 = 0))"

definition days_in_month :: "int \<Rightarrow> int \<Rightarrow> int" where
  "days_in_month y m =
     (if m = 2 then (if is_leap y then 29 else 28)
      else if m = 4 \<or> m = 6 \<or> m = 9 \<or> m = 11 then 30 else 31)"

definition days_before_year :: "int \<Rightarrow> int" where
  "days_before_year y =
     (let y' = y - 1 in y' * 365 + y' div 4 - y' div 100 + y' div 400)"

definition days_before_month :: "int \<Rightarrow> int \<Rightarrow> int" where
  "days_before_month y m = (\<Sum>k \<leftarrow> [1..m - 1]. days_in_month y k)"

definition toordinal :: "date \<Rightarrow> int" where
  "toordinal d = days_before_year (year d) + days_before_month (year d) (month d) + day d"

definition seconds_of_day :: "time \<Rightarrow> int" where
  "seconds_of_day t = hour t * 3600 + minute t * 60 + second t"

text \<open>A \<^verbatim>\<open>timedelta\<close> is kept normalised: \<open>0 \<le> seconds < 86400\<close>, the sign is in
  \<open>days\<close>. So one second before is \<open>days = -1, seconds = 86399\<close>.\<close>

definition timedelta_of_seconds :: "int \<Rightarrow> timedelta" where
  "timedelta_of_seconds n = \<lparr>days = n div 86400, seconds = n mod 86400\<rparr>"

text \<open>\<^verbatim>\<open>a - b\<close> on two datetimes.\<close>

definition dt_sub :: "datetime \<Rightarrow> datetime \<Rightarrow> timedelta" where
  "dt_sub a b =
     timedelta_of_seconds
       ((toordinal (the_date a) - toordinal (the_date b)) * 86400
        + (seconds_of_day (the_time a) - seconds_of_day (the_time b)))"

definition next_day :: "date \<Rightarrow> date" where
  "next_day d =
     (if day d < days_in_month (year d) (month d) then d\<lparr>day := day d + 1\<rparr>
      else if month d < 12 then d\<lparr>month := month d + 1, day := 1\<rparr>
      else \<lparr>year = year d + 1, month = 1, day = 1\<rparr>)"

definition time_of_seconds :: "int \<Rightarrow> time" where
  "time_of_seconds n = \<lparr>hour = n div 3600, minute = n mod 3600 div 60, second = n mod 60\<rparr>"

text \<open>\<^verbatim>\<open>dt + datetime.timedelta(seconds=n)\<close> for \<open>n \<ge> 0\<close>.\<close>

definition dt_add_seconds :: "datetime \<Rightarrow> nat \<Rightarrow> datetime" where
  "dt_add_seconds dt n =
     (let total = seconds_of_day (the_time dt) + int n
      in \<lparr>the_date = (next_day ^^ nat (total div 86400)) (the_date dt),
          the_time = time_of_seconds (total mod 86400)\<rparr>)"

text \<open>\<^verbatim>\<open>datetime.time(h, m, s)\<close> raises \<^verbatim>\<open>ValueError\<close> outside the clock's range.\<close>

definition py_time :: "int \<Rightarrow> int \<Rightarrow> int \<Rightarrow> exn + time" where
  "py_time h m s =
     (if 0 \<le> h \<and> h < 24 \<and> 0 \<le> m \<and> m < 60 \<and> 0 \<le> s \<and> s < 60
      then Inr \<lparr>hour = h, minute = m, second = s\<rparr>
      else Inl ValueError)"

definition combine :: "date \<Rightarrow> time \<Rightarrow> datetime" where
  "combine d t = \<lparr>the_date = d, the_time = t\<rparr>"

text \<open>Modelled from the spec: \<^verbatim>\<open>utils.hour_rounder\<close> is not part of the sources. The
  spec calls its result the nearest hour of the timestamp, and has 23:xx round to hour 0
  of the next calendar day: the minutes and seconds are dropped and one hour is added
  from minute 30 on.\<close>

definition hour_rounder :: "datetime \<Rightarrow> datetime" where
  "hour_rounder t =
     dt_add_seconds (combine (the_date t) \<lparr>hour = hour (the_time t), minute = 0, second = 0\<rparr>)
       (if 30 \<le> minute (the_time t) then 3600 else 0)"

section \<open>Track fixes and the interpolator\<close>

text \<open>A row of the track table. A NULL identifier reads as \<^verbatim>\<open>None\<close>.\<close>

record tc_record =
  sid :: "string option"
  date_time :: datetime
  lon :: real
  lat :: real

text \<open>\<^verbatim>\<open>self.extract_detail(tc_id, tc_dt, tc_lon, tc_lat)\<close> is a parameter of the
  traversal: any procedure on the world.\<close>

type_synonym 'w detail = "string option \<Rightarrow> datetime \<Rightarrow> real \<Rightarrow> real \<Rightarrow> 'w proc"

text \<open>Modelled from the spec: \<^verbatim>\<open>utils.get_center_shift_of_two_tcs\<close> is not part of the
  sources. The spec interpolates longitude and latitude linearly and independently, so the
  shift is the difference of the two centres on each axis.\<close>

definition get_center_shift_of_two_tcs :: "tc_record \<Rightarrow> tc_record \<Rightarrow> real \<times> real" where
  "get_center_shift_of_two_tcs next_tc tc = (lon next_tc - lon tc, lat next_tc - lat tc)"

definition extract_between_two_tc_records ::
  "'w detail \<Rightarrow> tc_record \<Rightarrow> tc_record \<Rightarrow> 'w proc" where
  "extract_between_two_tc_records extract_detail tc next_tc w =
     (let delta = dt_sub (date_time next_tc) (date_time tc)
      in if days delta \<noteq> 0
         then extract_detail (sid tc) (date_time tc) (lon tc) (lat tc) w
         else
           let hours = seconds delta div 3600;
               (lon_shift, lat_shift) = get_center_shift_of_two_tcs next_tc tc
           in if hours = 0 then (Some (Exception ZeroDivisionError), w)
              else
                let hourly_lon_shift = lon_shift / real_of_int hours;
                    hourly_lat_shift = lat_shift / real_of_int hours
                in for_each [0..<nat hours]
                     (\<lambda>h. extract_detail (sid tc)
                            (dt_add_seconds (date_time tc) (h * 3600))
                            (real h * hourly_lon_shift + lon tc)
                            (real h * hourly_lat_shift + lat tc)) w)"

text \<open>An \<^verbatim>\<open>extract_detail\<close> that only notes the point it was asked to extract at.\<close>

definition note_point :: "(string option \<times> datetime \<times> real \<times> real) list detail" where
  "note_point tc_id tc_dt tc_lon tc_lat w = (None, w @ [(tc_id, tc_dt, tc_lon, tc_lat)])"

section \<open>Grids and the bounding square\<close>

text \<open>The part of \<^verbatim>\<open>CONFIG\<close> the matcher reads.\<close>

record config =
  rss_spatial_resolution :: real
  edge_in_degree :: real
  pres_lvls :: "real list"
  minute_missing :: int
  wind_missing :: real

text \<open>\<^verbatim>\<open>int(r)\<close> on a float truncates towards zero.\<close>

definition py_int :: "real \<Rightarrow> int" where
  "py_int r = (if 0 \<le> r then \<lfloor>r\<rfloor> else \<lceil>r\<rceil>)"

definition lats_smap :: "config \<Rightarrow> real list" where
  "lats_smap CONFIG = map (\<lambda>y. real y * rss_spatial_resolution CONFIG - 89.875) [0..<720]"

definition lons_smap :: "config \<Rightarrow> real list" where
  "lons_smap CONFIG = map (\<lambda>x. real x * rss_spatial_resolution CONFIG + 0.125) [0..<1440]"

definition half_edge_grid_intervals :: "config \<Rightarrow> int" where
  "half_edge_grid_intervals CONFIG =
     py_int (edge_in_degree CONFIG / 2 / rss_spatial_resolution CONFIG)"

text \<open>\<^verbatim>\<open>xs[i]\<close> on a list: a negative index counts from the end, an index outside the
  list raises.\<close>

definition py_index :: "'a list \<Rightarrow> int \<Rightarrow> exn + 'a" where
  "py_index xs i =
     (if 0 \<le> i \<and> i < int (length xs) then Inr (xs ! nat i)
      else if i < 0 \<and> - int (length xs) \<le> i then Inr (xs ! nat (int (length xs) + i))
      else Inl IndexError)"

text \<open>\<^verbatim>\<open>a % b\<close> on floats, for \<open>b > 0\<close>.\<close>

definition py_fmod :: "real \<Rightarrow> real \<Rightarrow> real" where
  "py_fmod a b = a - b * of_int \<lfloor>a / b\<rfloor>"

text \<open>Modelled from the spec: \<^verbatim>\<open>utils.get_nearest_element_and_index\<close> is not part of
  the sources. The spec has it return the grid value and index closest to the coordinate,
  the first one in iteration order when several are equally close. An empty list has no
  nearest element.\<close>

fun nearest_scan :: "real list \<Rightarrow> real \<Rightarrow> nat \<Rightarrow> real \<times> nat \<Rightarrow> real \<times> nat" where
  "nearest_scan [] v i best = best"
| "nearest_scan (g # gs) v i (b, bi) =
     nearest_scan gs v (Suc i) (if \<bar>g - v\<bar> < \<bar>b - v\<bar> then (g, i) else (b, bi))"

definition get_nearest_element_and_index :: "real list \<Rightarrow> real \<Rightarrow> exn + real \<times> nat" where
  "get_nearest_element_and_index gs v =
     (case gs of [] \<Rightarrow> Inl ValueError | g # gs' \<Rightarrow> Inr (nearest_scan gs' v 1 (g, 0)))"

text \<open>The result is \<^verbatim>\<open>(success, lat1_idx, lat2_idx, lon1_idx, lon2_idx, lat1, lon1)\<close>.\<close>

definition get_square_around_tc ::
  "config \<Rightarrow> real \<Rightarrow> real \<Rightarrow> exn + bool \<times> int \<times> int \<times> int \<times> int \<times> real \<times> real" where
  "get_square_around_tc CONFIG tc_lon tc_lat =
     (case get_nearest_element_and_index (lons_smap CONFIG) tc_lon of Inl e \<Rightarrow> Inl e
      | Inr (tc_lon_in_grid, tc_lon_in_grid_idx) \<Rightarrow>
     (case get_nearest_element_and_index (lats_smap CONFIG) tc_lat of Inl e \<Rightarrow> Inl e
      | Inr (tc_lat_in_grid, tc_lat_in_grid_idx) \<Rightarrow>
     (let lat1_idx = int tc_lat_in_grid_idx - half_edge_grid_intervals CONFIG in
      case py_index (lats_smap CONFIG) lat1_idx of Inl e \<Rightarrow> Inl e | Inr lat1 \<Rightarrow>
     (let lat2_idx = int tc_lat_in_grid_idx + half_edge_grid_intervals CONFIG in
      case py_index (lats_smap CONFIG) lat2_idx of Inl e \<Rightarrow> Inl e | Inr lat2 \<Rightarrow>
     (let success = (if lat1 < - 90 \<or> lat2 > 90 then False else True);
          lon1_idx = int tc_lon_in_grid_idx - half_edge_grid_intervals CONFIG in
      case py_index (lons_smap CONFIG) lon1_idx of Inl e \<Rightarrow> Inl e | Inr lon1 \<Rightarrow>
     (let lon2_idx = int tc_lon_in_grid_idx + half_edge_grid_intervals CONFIG in
      case py_index (lons_smap CONFIG) lon2_idx of Inl e \<Rightarrow> Inl e | Inr lon2 \<Rightarrow>
     (let lon1' = py_fmod (lon1 + 360) 360
      in Inr (success, lat1_idx, lat2_idx, lon1_idx, lon2_idx, lat1, lon1'))))))))"

section \<open>The swath extractor\<close>

text \<open>\<^verbatim>\<open>for k in ks: body(k)\<close> on a state that the body updates; the first exception
  ends the loop.\<close>

fun for_loop :: "'k list \<Rightarrow> ('k \<Rightarrow> 's \<Rightarrow> 'e + 's) \<Rightarrow> 's \<Rightarrow> 'e + 's" where
  "for_loop [] body s = Inr s"
| "for_loop (k # ks) body s =
     (case body k s of Inl e \<Rightarrow> Inl e | Inr s' \<Rightarrow> for_loop ks body s')"

text \<open>A three-dimensional array read from the satellite file: its shape and its entries.\<close>

record 'a array3 =
  shape :: "nat \<times> nat \<times> nat"
  entry :: "nat \<Rightarrow> nat \<Rightarrow> nat \<Rightarrow> 'a"

text \<open>The satellite file: asked for \<^verbatim>\<open>[lat_from:lat_to, lon_from:lon_to, :]\<close>, it gives
  the variables \<^verbatim>\<open>minute\<close> and \<^verbatim>\<open>wind\<close> on that window, or fails.\<close>

type_synonym smap_file = "int \<Rightarrow> int \<Rightarrow> int \<Rightarrow> int \<Rightarrow> exn + int array3 \<times> real array3"

text \<open>A float that a reanalysis computation produced: numpy's mean of an empty array is
  \<^verbatim>\<open>nan\<close>.\<close>

datatype pyfloat = Finite real | NaN

text \<open>One row of the SMAP/ERA5 table. The loop of \<^verbatim>\<open>get_smap_part\<close> sets the first
  eight columns; the others are unset until the reanalysis passes. The uniqueness key
  \<^verbatim>\<open>f"{satel_datetime}_{lon}_{lat}"\<close> is kept as the triple it prints. The reanalysis
  columns set by \<^verbatim>\<open>setattr(row, name, value)\<close> are a dictionary from column names.\<close>

record row =
  row_sid :: "string option"
  satel_datetime :: datetime
  row_x :: int
  row_y :: int
  row_lon :: real
  row_lat :: real
  satel_datetime_lon_lat :: "datetime \<times> real \<times> real"
  smap_windspd :: real
  era5_datetime :: "datetime option"
  satel_era5_diff_mins :: "int option"
  era5_vars :: "string \<rightharpoonup> pyfloat"
  era5_10m_neutral_equivalent_windspd :: "pyfloat option"
  era5_10m_neutral_equivalent_winddir :: "pyfloat option"
  smap_u_wind :: "pyfloat option"
  smap_v_wind :: "pyfloat option"

text \<open>The locals \<^verbatim>\<open>data, north, west, south, east, hourtimes\<close> of the loop.\<close>

record scan =
  sc_data :: "row list"
  sc_north :: real
  sc_west :: real
  sc_south :: real
  sc_east :: real
  sc_hourtimes :: "int list"

definition scan_init :: scan where
  "scan_init = \<lparr>sc_data = [], sc_north = - 90, sc_west = 360, sc_south = 90, sc_east = 0,
                 sc_hourtimes = []\<rparr>"

text \<open>The two pairs of tests that widen the envelope by the longitude and by the latitude
  of a row: \<^verbatim>\<open>if row.lon < west: west = row.lon\<close>, \<^verbatim>\<open>if row.lon > east: east = row.lon\<close>,
  and the same for \<^verbatim>\<open>south\<close> and \<^verbatim>\<open>north\<close>.\<close>

definition widen_lon :: "real \<Rightarrow> scan \<Rightarrow> scan" where
  "widen_lon l s =
     (let s1 = (if l < sc_west s then s\<lparr>sc_west := l\<rparr> else s)
      in if l > sc_east s1 then s1\<lparr>sc_east := l\<rparr> else s1)"

definition widen_lat :: "real \<Rightarrow> scan \<Rightarrow> scan" where
  "widen_lat l s =
     (let s1 = (if l < sc_south s then s\<lparr>sc_south := l\<rparr> else s)
      in if l > sc_north s1 then s1\<lparr>sc_north := l\<rparr> else s1)"

text \<open>The body of the innermost loop, for pass \<open>i\<close> of the cell in row \<open>y\<close> and column
  \<open>x\<close>. Each \<^verbatim>\<open>continue\<close> returns the state as it is at that line.\<close>

definition scan_pixel ::
  "config \<Rightarrow> string option \<Rightarrow> datetime \<Rightarrow> real \<Rightarrow> real \<Rightarrow> int array3 \<Rightarrow> real array3
   \<Rightarrow> nat \<Rightarrow> nat \<Rightarrow> nat \<Rightarrow> scan \<Rightarrow> exn + scan" where
  "scan_pixel CONFIG tc_id tc_dt lat1 lon1 minute_var wind_var y x i s =
     (let lat_of_row = real y * rss_spatial_resolution CONFIG + lat1;
          lon_of_col = real x * rss_spatial_resolution CONFIG + lon1
      in if entry minute_var y x i = minute_missing CONFIG
            \<or> entry wind_var y x i = wind_missing CONFIG then Inr s
         else if snd (snd (shape minute_var)) < 2 then Inl IndexError
         else if entry minute_var y x 0 = entry minute_var y x 1 then Inr s
         else
           case py_time (entry minute_var y x i div 60) (entry minute_var y x i mod 60) 0 of
             Inl e \<Rightarrow> Inl e
           | Inr time' \<Rightarrow>
             let pixel_dt = combine (the_date tc_dt) time';
                 delta = dt_sub pixel_dt tc_dt
             in if days delta \<noteq> 0 \<or> \<bar>seconds delta\<bar> \<ge> 1800 then Inr s
                else
                  let new_row = \<lparr>row_sid = tc_id,
                        satel_datetime = combine (the_date tc_dt) time',
                        row_x = int x - half_edge_grid_intervals CONFIG,
                        row_y = int y - half_edge_grid_intervals CONFIG,
                        row_lon = lon_of_col,
                        row_lat = lat_of_row,
                        satel_datetime_lon_lat =
                          (combine (the_date tc_dt) time', lon_of_col, lat_of_row),
                        smap_windspd = entry wind_var y x i,
                        era5_datetime = None, satel_era5_diff_mins = None,
                        era5_vars = Map.empty,
                        era5_10m_neutral_equivalent_windspd = None,
                        era5_10m_neutral_equivalent_winddir = None,
                        smap_u_wind = None, smap_v_wind = None\<rparr>;
                      s4 = widen_lat (row_lat new_row) (widen_lon (row_lon new_row) s);
                      this_hourtime = hour (the_time (hour_rounder (satel_datetime new_row)))
                  in if hour (the_time (satel_datetime new_row)) = 23 \<and> this_hourtime = 0
                     then Inr s4
                     else if row_sid new_row = None then Inr s4
                     else Inr (s4\<lparr>sc_data := sc_data s4 @ [new_row],
                                   sc_hourtimes := List.insert this_hourtime (sc_hourtimes s4)\<rparr>))"

text \<open>The three nested loops over the window.\<close>

definition scan_window ::
  "config \<Rightarrow> string option \<Rightarrow> datetime \<Rightarrow> real \<Rightarrow> real \<Rightarrow> int array3 \<Rightarrow> real array3
   \<Rightarrow> exn + scan" where
  "scan_window CONFIG tc_id tc_dt lat1 lon1 minute_var wind_var =
     (case shape minute_var of (lats_num, lons_num, passes_num) \<Rightarrow>
        for_loop [0..<lats_num] (\<lambda>y.
          for_loop [0..<lons_num] (\<lambda>x.
            for_loop [0..<passes_num] (\<lambda>i.
              scan_pixel CONFIG tc_id tc_dt lat1 lon1 minute_var wind_var y x i)))
          scan_init)"

text \<open>What \<^verbatim>\<open>get_smap_part\<close> returns: the pair \<^verbatim>\<open>([], None)\<close> of its early return,
  or the triple \<^verbatim>\<open>(data, list(hourtimes), area)\<close> with
  \<^verbatim>\<open>area = [north, west, south, east]\<close> after padding.\<close>

datatype smap_part =
  Data_None "row list"
  | Data_Hourtimes_Area "row list" "int list" "real \<times> real \<times> real \<times> real"

definition get_smap_part ::
  "config \<Rightarrow> string option \<Rightarrow> datetime \<Rightarrow> real \<Rightarrow> real \<Rightarrow> smap_file \<Rightarrow> exn + smap_part" where
  "get_smap_part CONFIG tc_id tc_dt tc_lon tc_lat smap_file =
     (case get_square_around_tc CONFIG tc_lon tc_lat of Inl e \<Rightarrow> Inl e
      | Inr (success, lat1_idx, lat2_idx, lon1_idx, lon2_idx, lat1, lon1) \<Rightarrow>
        if \<not> success then Inr (Data_None [])
        else
          case smap_file lat1_idx (lat2_idx + 1) lon1_idx (lon2_idx + 1) of Inl e \<Rightarrow> Inl e
          | Inr (minute_var, wind_var) \<Rightarrow>
            (case scan_window CONFIG tc_id tc_dt lat1 lon1 minute_var wind_var of
               Inl e \<Rightarrow> Inl e
             | Inr s \<Rightarrow>
               let diff = 0.5;
                   area = (sc_north s + diff, sc_west s - diff, sc_south s - diff,
                           sc_east s + diff)
               in Inr (Data_Hourtimes_Area (sc_data s) (sc_hourtimes s) area)))"

text \<open>\<^verbatim>\<open>extract_smap\<close> gets the file from the satellite provider and unpacks the result
  of \<^verbatim>\<open>get_smap_part\<close> into three names; unpacking a pair into three names raises
  \<^verbatim>\<open>ValueError\<close>.\<close>

definition extract_smap ::
  "(datetime \<Rightarrow> exn + smap_file) \<Rightarrow> config \<Rightarrow> string option \<Rightarrow> datetime \<Rightarrow> real \<Rightarrow> real
   \<Rightarrow> exn + row list \<times> int list \<times> (real \<times> real \<times> real \<times> real)" where
  "extract_smap download CONFIG tc_id tc_dt tc_lon tc_lat =
     (case download tc_dt of Inl e \<Rightarrow> Inl e
      | Inr smap_file_path \<Rightarrow>
        (case get_smap_part CONFIG tc_id tc_dt tc_lon tc_lat smap_file_path of
           Inl e \<Rightarrow> Inl e
         | Inr (Data_None d) \<Rightarrow> Inl ValueError
         | Inr (Data_Hourtimes_Area d hourtimes area) \<Rightarrow> Inr (d, hourtimes, area)))"

section \<open>The hour bucketer\<close>

text \<open>\<^verbatim>\<open>range(0, 2400, 100)\<close>\<close>

definition hourtime_range :: "int list" where
  "hourtime_range = map (\<lambda>k. 100 * int k) [0..<24]"

definition get_hourtime_row_mapper :: "row list \<Rightarrow> exn + (int \<rightharpoonup> nat list)" where
  "get_hourtime_row_mapper satel_part =
     (case py_index satel_part 0 of Inl e \<Rightarrow> Inl e
      | Inr first_row \<Rightarrow>
        let satel_day = day (the_date (satel_datetime first_row));
            hourtime_row_mapper = fold (\<lambda>hourtime m. m(hourtime \<mapsto> [])) hourtime_range Map.empty
        in for_loop (enumerate 0 satel_part)
             (\<lambda>(idx, r) m.
                let hour_roundered_dt = hour_rounder (satel_datetime r)
                in if day (the_date hour_roundered_dt) = satel_day
                   then
                     let closest_time = 100 * hour (the_time hour_roundered_dt)
                     in case m closest_time of None \<Rightarrow> Inl KeyError
                        | Some bucket \<Rightarrow> Inr (m(closest_time \<mapsto> bucket @ [idx]))
                   else Inr m)
             hourtime_row_mapper)"

section \<open>The grid resampler\<close>

text \<open>One GRIB message: its name, its resolution, its pressure level, and
  \<^verbatim>\<open>grb.data(lat1, lat2, lon1, lon2)\<close>, which reads the field over an area and gives
  the values, the latitudes and the longitudes as two-dimensional arrays (lists of rows),
  or fails.\<close>

record grb =
  grb_name :: string
  jDirectionIncrementInDegrees :: real
  level :: real
  grb_data :: "real \<Rightarrow> real \<Rightarrow> real \<Rightarrow> real
               \<Rightarrow> exn + real list list \<times> real list list \<times> real list list"

text \<open>\<^verbatim>\<open>pygrib.index(path, 'dataTime')\<close>: \<^verbatim>\<open>select(dataTime=hourtime)\<close> gives the
  messages of an hour or fails. The loops call \<^verbatim>\<open>grbidx.close()\<close> at the end of every
  hour they process, so the index is told whether it has been closed before.\<close>

type_synonym grib_index = "bool \<Rightarrow> int \<Rightarrow> exn + grb list"

text \<open>The external collaborators and the helpers of \<^verbatim>\<open>utils\<close> that are not part of the
  sources and that the spec does not define: each is a parameter.\<close>

record env =
  is_land :: "real \<Rightarrow> real \<Rightarrow> bool"
  longtitude_converter :: "real \<Rightarrow> real"
  create_smap_era5_table :: "datetime \<Rightarrow> exn option"
  smap_download :: "datetime \<Rightarrow> exn + smap_file"
  download_single_levels_vars ::
    "datetime \<Rightarrow> int list \<Rightarrow> real \<times> real \<times> real \<times> real \<Rightarrow> string option \<Rightarrow> exn + grib_index"
  download_pressure_levels_vars ::
    "datetime \<Rightarrow> int list \<Rightarrow> real \<times> real \<times> real \<times> real \<Rightarrow> real list \<Rightarrow> string option
     \<Rightarrow> exn + grib_index"
  process_grib_message_name :: "string \<Rightarrow> string"
  get_era5_corners_of_rss_cell ::
    "real \<Rightarrow> real \<Rightarrow> real list list \<Rightarrow> real list list \<Rightarrow> real
     \<Rightarrow> exn + (real \<times> real \<times> real \<times> real) \<times> (int \<times> int \<times> int \<times> int)"
  interp2d ::
    "real list list \<Rightarrow> real list list \<Rightarrow> real list list \<Rightarrow> real \<Rightarrow> real \<Rightarrow> exn + pyfloat"
  compose_wind :: "pyfloat option \<Rightarrow> pyfloat option \<Rightarrow> exn + pyfloat \<times> pyfloat"
  decompose_wind :: "real \<Rightarrow> pyfloat \<Rightarrow> exn + pyfloat \<times> pyfloat"
  bulk_insert_avoid_duplicate_unique :: "row list \<Rightarrow> exn option"

text \<open>\<^verbatim>\<open>xs[a:b]\<close>: negative bounds count from the end, and bounds are clipped to the
  list.\<close>

definition py_slice :: "'a list \<Rightarrow> int \<Rightarrow> int \<Rightarrow> 'a list" where
  "py_slice xs a b =
     (let n = int (length xs);
          a' = (if a < 0 then max (a + n) 0 else min a n);
          b' = (if b < 0 then max (b + n) 0 else min b n)
      in take (nat (b' - a')) (drop (nat a') xs))"

text \<open>\<^verbatim>\<open>arr[r0:r1, c0:c1]\<close>\<close>

definition slice2 :: "'a list list \<Rightarrow> int \<Rightarrow> int \<Rightarrow> int \<Rightarrow> int \<Rightarrow> 'a list list" where
  "slice2 arr r0 r1 c0 c1 = map (\<lambda>line. py_slice line c0 c1) (py_slice arr r0 r1)"

text \<open>\<^verbatim>\<open>float(arr.mean())\<close>: the mean of all entries.\<close>

definition np_mean :: "real list list \<Rightarrow> pyfloat" where
  "np_mean arr =
     (let entries = concat arr
      in if entries = [] then NaN else Finite (sum_list entries / real (length entries)))"

text \<open>The error that is logged when the arrays are not 2 by 2 changes nothing else.\<close>

definition value_of_rss_pt_in_era5_square ::
  "env \<Rightarrow> real list list \<Rightarrow> real list list \<Rightarrow> real list list \<Rightarrow> real \<Rightarrow> real \<Rightarrow> exn + pyfloat" where
  "value_of_rss_pt_in_era5_square E arr lats lons rss_lat rss_lon =
     interp2d E lons lats arr rss_lon rss_lat"

text \<open>The body of the innermost loop of \<^verbatim>\<open>add_era5_single_levels\<close>, for the row at
  \<open>idx\<close>. A failure of the corner lookup ends the run there.\<close>

definition single_levels_row ::
  "env \<Rightarrow> datetime \<Rightarrow> int \<Rightarrow> time \<Rightarrow> string \<Rightarrow> real
   \<Rightarrow> real list list \<Rightarrow> real list list \<Rightarrow> real list list
   \<Rightarrow> nat \<Rightarrow> row list \<Rightarrow> signal + row list" where
  "single_levels_row E tc_dt hourtime grb_time name grb_spa_resolu arr lats lons idx satel_part =
     (case py_index satel_part (int idx) of Inl e \<Rightarrow> Inl (Exception e)
      | Inr r0 \<Rightarrow>
        let satel_minute = hour (the_time (satel_datetime r0)) * 60
                           + minute (the_time (satel_datetime r0));
            grb_minute = (hourtime div 100) * 60;
            r = r0\<lparr>era5_datetime := Some (combine (the_date tc_dt) grb_time),
                    satel_era5_diff_mins := Some (satel_minute - grb_minute)\<rparr>
        in case get_era5_corners_of_rss_cell E (row_lat r) (row_lon r) lats lons grb_spa_resolu of
             Inl msg \<Rightarrow> Inl (SystemExit msg)
           | Inr ((lat1, lat2, lon1, lon2), (lat1_idx, lat2_idx, lon1_idx, lon2_idx)) \<Rightarrow>
             let square_data = slice2 arr lat1_idx (lat2_idx + 1) lon1_idx (lon2_idx + 1);
                 square_lats = slice2 lats lat1_idx (lat2_idx + 1) lon1_idx (lon2_idx + 1);
                 square_lons = slice2 lons lat1_idx (lat2_idx + 1) lon1_idx (lon2_idx + 1)
             in case (if grb_spa_resolu = 0.25 then Inr (np_mean square_data)
                      else value_of_rss_pt_in_era5_square E square_data square_lats square_lons
                             (row_lat r) (row_lon r)) of
                  Inl e \<Rightarrow> Inl (Exception e)
                | Inr v \<Rightarrow> Inr (satel_part[idx := r\<lparr>era5_vars := (era5_vars r)(name \<mapsto> v)\<rparr>]))"

text \<open>The body of the loop over the messages of an hour in
  \<^verbatim>\<open>add_era5_single_levels\<close>: the field is read once over the area, flipped to run
  from south to north, and given to every row of the bucket.\<close>

definition single_levels_grb ::
  "env \<Rightarrow> datetime \<Rightarrow> real \<times> real \<times> real \<times> real \<Rightarrow> nat list \<Rightarrow> int \<Rightarrow> time \<Rightarrow> grb
   \<Rightarrow> row list \<Rightarrow> signal + row list" where
  "single_levels_grb E tc_dt area bucket hourtime grb_time g satel_part =
     (case area of (north, west, south, east) \<Rightarrow>
        let name = process_grib_message_name E (grb_name g);
            grb_spa_resolu = jDirectionIncrementInDegrees g
        in case grb_data g south north west east of
             Inl e \<Rightarrow> Inl (Exception e)
           | Inr (arr, lats, lons) \<Rightarrow>
             for_loop bucket
               (single_levels_row E tc_dt hourtime grb_time name grb_spa_resolu
                  (rev arr) (rev lats) (rev lons))
               satel_part)"

text \<open>The body of the loop over the hours of \<^verbatim>\<open>add_era5_single_levels\<close>. Its state is
  the list of rows and whether the index has been closed.\<close>

definition single_levels_hour ::
  "env \<Rightarrow> datetime \<Rightarrow> real \<times> real \<times> real \<times> real \<Rightarrow> grib_index \<Rightarrow> (int \<rightharpoonup> nat list)
   \<Rightarrow> int \<Rightarrow> row list \<times> bool \<Rightarrow> signal + row list \<times> bool" where
  "single_levels_hour E tc_dt area grbidx hourtime_row_mapper hourtime st =
     (case st of (rows, was_closed) \<Rightarrow>
        case hourtime_row_mapper hourtime of None \<Rightarrow> Inl (Exception KeyError)
        | Some bucket \<Rightarrow>
          if length bucket = 0 then Inr (rows, was_closed)
          else
            case py_time (hourtime div 100) 0 0 of Inl e \<Rightarrow> Inl (Exception e)
            | Inr grb_time \<Rightarrow>
              (case grbidx was_closed hourtime of Inl e \<Rightarrow> Inl (Exception e)
               | Inr selected_grbs \<Rightarrow>
                 (case for_loop selected_grbs
                         (single_levels_grb E tc_dt area bucket hourtime grb_time) rows of
                    Inl sg \<Rightarrow> Inl sg
                  | Inr rows' \<Rightarrow> Inr (rows', True))))"

definition single_levels_loop ::
  "env \<Rightarrow> datetime \<Rightarrow> real \<times> real \<times> real \<times> real \<Rightarrow> grib_index \<Rightarrow> (int \<rightharpoonup> nat list)
   \<Rightarrow> row list \<Rightarrow> signal + row list \<times> bool" where
  "single_levels_loop E tc_dt area grbidx hourtime_row_mapper satel_part =
     for_loop hourtime_range (single_levels_hour E tc_dt area grbidx hourtime_row_mapper)
       (satel_part, False)"

text \<open>Modelled from the spec: the nearest pressure level of a row is chosen from its
  mean-sea-level pressure by the selection rule of
  \<^verbatim>\<open>utils.get_nearest_element_and_index\<close>. No distance to \<^verbatim>\<open>nan\<close> is smaller than
  another, which leaves the first level.\<close>

definition nearest_pres_lvl :: "real list \<Rightarrow> pyfloat \<Rightarrow> exn + real \<times> nat" where
  "nearest_pres_lvl lvls p =
     (case p of
        Finite v \<Rightarrow> get_nearest_element_and_index lvls (v / 100)
      | NaN \<Rightarrow> (case lvls of [] \<Rightarrow> Inl ValueError | l # _ \<Rightarrow> Inr (l, 0)))"

text \<open>The body of the last loop of \<^verbatim>\<open>add_era5_single_levels\<close>: the derived columns of
  one row and its pressure level. A column that no message has set reads as
  \<^verbatim>\<open>None\<close>, and \<^verbatim>\<open>None / 100\<close> raises.\<close>

definition derive_row :: "env \<Rightarrow> config \<Rightarrow> row \<Rightarrow> exn + row \<times> real" where
  "derive_row E CONFIG r =
     (case era5_vars r ''mean_sea_level_pressure'' of None \<Rightarrow> Inl TypeError
      | Some p \<Rightarrow>
        (case nearest_pres_lvl (pres_lvls CONFIG) p of Inl e \<Rightarrow> Inl e
         | Inr (nearest, nearest_idx) \<Rightarrow>
           (case compose_wind E (era5_vars r ''neutral_wind_at_10_m_u_component'')
                   (era5_vars r ''neutral_wind_at_10_m_v_component'') of
              Inl e \<Rightarrow> Inl e
            | Inr (windspd, winddir) \<Rightarrow>
              (case decompose_wind E (smap_windspd r) winddir of Inl e \<Rightarrow> Inl e
               | Inr (u_wind, v_wind) \<Rightarrow>
                 Inr (r\<lparr>era5_10m_neutral_equivalent_windspd := Some windspd,
                        era5_10m_neutral_equivalent_winddir := Some winddir,
                        smap_u_wind := Some u_wind, smap_v_wind := Some v_wind\<rparr>,
                      nearest)))))"

text \<open>What the run has done so far: the calls of \<^verbatim>\<open>get_hourtime_row_mapper\<close> with
  their argument, and the batches handed to the sink.\<close>

datatype event = Call_get_hourtime_row_mapper "row list" | Bulk_insert "row list"

type_synonym world = "event list"

definition add_era5_single_levels ::
  "env \<Rightarrow> config \<Rightarrow> grib_index \<Rightarrow> datetime \<Rightarrow> row list \<Rightarrow> int list
   \<Rightarrow> real \<times> real \<times> real \<times> real \<Rightarrow> world \<Rightarrow> (signal + row list \<times> real list) \<times> world" where
  "add_era5_single_levels E CONFIG grbidx tc_dt satel_part hourtimes area w =
     (let w1 = w @ [Call_get_hourtime_row_mapper satel_part]
      in case get_hourtime_row_mapper satel_part of Inl e \<Rightarrow> (Inl (Exception e), w1)
         | Inr hourtime_row_mapper \<Rightarrow>
           (case single_levels_loop E tc_dt area grbidx hourtime_row_mapper satel_part of
              Inl sg \<Rightarrow> (Inl sg, w1)
            | Inr (rows, was_closed) \<Rightarrow>
              (case for_loop [0..<length rows]
                      (\<lambda>k (rows', lvls).
                         case derive_row E CONFIG (rows' ! k) of Inl e \<Rightarrow> Inl (Exception e)
                         | Inr (r, nearest) \<Rightarrow> Inr (rows'[k := r], lvls @ [nearest]))
                      (rows, []) of
                 Inl sg \<Rightarrow> (Inl sg, w1)
               | Inr (rows', lvls) \<Rightarrow> (Inr (rows', lvls), w1))))"

text \<open>The body of the innermost loop of \<^verbatim>\<open>add_era5_pressure_levels\<close>. The two
  consistency checks only log. With a resolution of 0.25 the value is the mean of
  \<^verbatim>\<open>data\<close>, the whole field read for the area.\<close>

definition pressure_levels_row ::
  "env \<Rightarrow> real list \<Rightarrow> real \<Rightarrow> string \<Rightarrow> real
   \<Rightarrow> real list list \<Rightarrow> real list list \<Rightarrow> real list list
   \<Rightarrow> nat \<Rightarrow> row list \<Rightarrow> signal + row list" where
  "pressure_levels_row E lvls grb_level name grb_spa_resolu arr lats lons idx era5_step_1 =
     (case py_index lvls (int idx) of Inl e \<Rightarrow> Inl (Exception e)
      | Inr lvl \<Rightarrow>
        if lvl \<noteq> grb_level then Inr era5_step_1
        else
          case py_index era5_step_1 (int idx) of Inl e \<Rightarrow> Inl (Exception e)
          | Inr r \<Rightarrow>
            (case get_era5_corners_of_rss_cell E (row_lat r) (row_lon r) lats lons
                    grb_spa_resolu of
               Inl e \<Rightarrow> Inl (Exception e)
             | Inr ((lat1, lat2, lon1, lon2), (lat1_idx, lat2_idx, lon1_idx, lon2_idx)) \<Rightarrow>
               let square_data = slice2 arr lat1_idx (lat2_idx + 1) lon1_idx (lon2_idx + 1);
                   square_lats = slice2 lats lat1_idx (lat2_idx + 1) lon1_idx (lon2_idx + 1);
                   square_lons = slice2 lons lat1_idx (lat2_idx + 1) lon1_idx (lon2_idx + 1)
               in case (if grb_spa_resolu = 0.25 then Inr (np_mean arr)
                        else value_of_rss_pt_in_era5_square E square_data square_lats
                               square_lons (row_lat r) (row_lon r)) of
                    Inl e \<Rightarrow> Inl (Exception e)
                  | Inr v \<Rightarrow>
                    Inr (era5_step_1[idx := r\<lparr>era5_vars := (era5_vars r)(name \<mapsto> v)\<rparr>])))"

definition pressure_levels_grb ::
  "env \<Rightarrow> real \<times> real \<times> real \<times> real \<Rightarrow> nat list \<Rightarrow> real list \<Rightarrow> grb
   \<Rightarrow> row list \<Rightarrow> signal + row list" where
  "pressure_levels_grb E area bucket lvls g era5_step_1 =
     (case area of (north, west, south, east) \<Rightarrow>
        let name = process_grib_message_name E (grb_name g);
            grb_spa_resolu = jDirectionIncrementInDegrees g
        in case grb_data g south north west east of
             Inl e \<Rightarrow> Inl (Exception e)
           | Inr (arr, lats, lons) \<Rightarrow>
             for_loop bucket
               (pressure_levels_row E lvls (level g) name grb_spa_resolu
                  (rev arr) (rev lats) (rev lons))
               era5_step_1)"

definition pressure_levels_hour ::
  "env \<Rightarrow> real \<times> real \<times> real \<times> real \<Rightarrow> grib_index \<Rightarrow> (int \<rightharpoonup> nat list) \<Rightarrow> real list
   \<Rightarrow> int \<Rightarrow> row list \<times> bool \<Rightarrow> signal + row list \<times> bool" where
  "pressure_levels_hour E area grbidx hourtime_row_mapper lvls hourtime st =
     (case st of (rows, was_closed) \<Rightarrow>
        case hourtime_row_mapper hourtime of None \<Rightarrow> Inl (Exception KeyError)
        | Some bucket \<Rightarrow>
          if length bucket = 0 then Inr (rows, was_closed)
          else
            case py_time (hourtime div 100) 0 0 of Inl e \<Rightarrow> Inl (Exception e)
            | Inr grb_time \<Rightarrow>
              (case grbidx was_closed hourtime of Inl e \<Rightarrow> Inl (Exception e)
               | Inr selected_grbs \<Rightarrow>
                 (case for_loop selected_grbs (pressure_levels_grb E area bucket lvls) rows of
                    Inl sg \<Rightarrow> Inl sg
                  | Inr rows' \<Rightarrow> Inr (rows', True))))"

definition pressure_levels_loop ::
  "env \<Rightarrow> real \<times> real \<times> real \<times> real \<Rightarrow> grib_index \<Rightarrow> (int \<rightharpoonup> nat list) \<Rightarrow> real list
   \<Rightarrow> row list \<Rightarrow> signal + row list \<times> bool" where
  "pressure_levels_loop E area grbidx hourtime_row_mapper lvls era5_step_1 =
     for_loop hourtime_range (pressure_levels_hour E area grbidx hourtime_row_mapper lvls)
       (era5_step_1, False)"

definition add_era5_pressure_levels ::
  "env \<Rightarrow> grib_index \<Rightarrow> datetime \<Rightarrow> row list \<Rightarrow> int list
   \<Rightarrow> real \<times> real \<times> real \<times> real \<Rightarrow> real list \<Rightarrow> world \<Rightarrow> (signal + row list) \<times> world" where
  "add_era5_pressure_levels E grbidx tc_dt era5_step_1 hourtimes area lvls w =
     (let w1 = w @ [Call_get_hourtime_row_mapper era5_step_1]
      in case get_hourtime_row_mapper era5_step_1 of Inl e \<Rightarrow> (Inl (Exception e), w1)
         | Inr hourtime_row_mapper \<Rightarrow>
           (case pressure_levels_loop E area grbidx hourtime_row_mapper lvls era5_step_1 of
              Inl sg \<Rightarrow> (Inl sg, w1)
            | Inr (rows, was_closed) \<Rightarrow> (Inr rows, w1)))"

section \<open>The pipeline\<close>

definition extract_era5_single_levels ::
  "env \<Rightarrow> config \<Rightarrow> string option \<Rightarrow> datetime \<Rightarrow> row list \<Rightarrow> int list
   \<Rightarrow> real \<times> real \<times> real \<times> real \<Rightarrow> world \<Rightarrow> (signal + row list \<times> real list) \<times> world" where
  "extract_era5_single_levels E CONFIG tc_id tc_dt satel_part hourtimes area w =
     (case download_single_levels_vars E tc_dt hourtimes area tc_id of
        Inl e \<Rightarrow> (Inl (Exception e), w)
      | Inr era5_file_path \<Rightarrow>
        add_era5_single_levels E CONFIG era5_file_path tc_dt satel_part hourtimes area w)"

definition extract_era5_pressure_levels ::
  "env \<Rightarrow> string option \<Rightarrow> datetime \<Rightarrow> row list \<Rightarrow> int list
   \<Rightarrow> real \<times> real \<times> real \<times> real \<Rightarrow> real list \<Rightarrow> world \<Rightarrow> (signal + row list) \<times> world" where
  "extract_era5_pressure_levels E tc_id tc_dt era5_step_1 hourtimes area lvls w =
     (case download_pressure_levels_vars E tc_dt hourtimes area (sort (remdups lvls)) tc_id of
        Inl e \<Rightarrow> (Inl (Exception e), w)
      | Inr era5_file_path \<Rightarrow>
        add_era5_pressure_levels E era5_file_path tc_dt era5_step_1 hourtimes area lvls w)"

text \<open>What the handler \<^verbatim>\<open>except Exception as msg: breakpoint(); exit(msg)\<close> makes of a
  signal.\<close>

fun exit_on_exception :: "signal \<Rightarrow> signal" where
  "exit_on_exception (Exception msg) = SystemExit msg"
| "exit_on_exception (SystemExit msg) = SystemExit msg"

definition extract_era5 ::
  "env \<Rightarrow> config \<Rightarrow> string option \<Rightarrow> datetime \<Rightarrow> row list \<Rightarrow> int list
   \<Rightarrow> real \<times> real \<times> real \<times> real \<Rightarrow> world \<Rightarrow> (signal + row list) \<times> world" where
  "extract_era5 E CONFIG tc_id tc_dt satel_part hourtimes area w =
     (case extract_era5_single_levels E CONFIG tc_id tc_dt satel_part hourtimes area w of
        (Inl sg, w1) \<Rightarrow> (Inl (exit_on_exception sg), w1)
      | (Inr (era5_step_1, lvls), w1) \<Rightarrow>
        (case extract_era5_pressure_levels E tc_id tc_dt era5_step_1 hourtimes area lvls w1 of
           (Inl sg, w2) \<Rightarrow> (Inl (exit_on_exception sg), w2)
         | (Inr era5_step_2, w2) \<Rightarrow> (Inr era5_step_2, w2)))"

definition extract_detail :: "env \<Rightarrow> config \<Rightarrow> world detail" where
  "extract_detail E CONFIG tc_id tc_dt tc_lon tc_lat w =
     (case create_smap_era5_table E tc_dt of Some e \<Rightarrow> (Some (Exception e), w)
      | None \<Rightarrow>
        (case extract_smap (smap_download E) CONFIG tc_id tc_dt tc_lon tc_lat of
           Inl e \<Rightarrow> (Some (Exception e), w)
         | Inr (satel_part, hourtimes, area) \<Rightarrow>
           if length satel_part = 0 then (None, w)
           else
             (case extract_era5 E CONFIG tc_id tc_dt satel_part hourtimes area w of
                (Inl sg, w1) \<Rightarrow> (Some sg, w1)
              | (Inr era5_step_2, w1) \<Rightarrow>
                (case bulk_insert_avoid_duplicate_unique E era5_step_2 of
                   Some e \<Rightarrow> (Some (Exception e), w1 @ [Bulk_insert era5_step_2])
                 | None \<Rightarrow> (None, w1 @ [Bulk_insert era5_step_2])))))"

text \<open>The body of the \<^verbatim>\<open>try\<close> in \<^verbatim>\<open>extract\<close>, for the fix at \<open>idx\<close> of the
  \<open>total\<close> fixes of the query.\<close>

definition extract_fix :: "'w detail \<Rightarrow> env \<Rightarrow> tc_record list \<Rightarrow> nat \<Rightarrow> tc_record \<Rightarrow> 'w proc" where
  "extract_fix detail E tc_query idx tc w =
     (let total = int (length tc_query);
          converted_lon = longtitude_converter E (lon tc)
      in if is_land E (lat tc) converted_lon then (None, w)
         else if int idx < total - 1
         then
           let next_tc = tc_query ! (idx + 1)
           in if sid tc = sid next_tc
              then extract_between_two_tc_records detail tc next_tc w
              else detail (sid tc) (date_time tc) (lon tc) (lat tc) w
         else detail (sid tc) (date_time tc) (lon tc) (lat tc) w)"

text \<open>\<^verbatim>\<open>extract\<close>, the traversal of the track fixes, with \<^verbatim>\<open>self.extract_detail\<close>
  as a parameter (\<open>extract\<close> is a keyword of Isabelle, hence the longer name).\<close>

definition extract_tracks :: "'w detail \<Rightarrow> env \<Rightarrow> tc_record list \<Rightarrow> 'w proc" where
  "extract_tracks detail E tc_query =
     for_each (enumerate 0 tc_query)
       (\<lambda>(idx, tc). try_except_exit (extract_fix detail E tc_query idx tc))"

text \<open>The run of the matcher over the fixes of a query.\<close>

definition run_match :: "env \<Rightarrow> config \<Rightarrow> tc_record list \<Rightarrow> world proc" where
  "run_match E CONFIG tc_query = extract_tracks (extract_detail E CONFIG) E tc_query"

section \<open>Notions used to state the properties\<close>

text \<open>The time of day that \<^verbatim>\<open>datetime.time(*divmod(int(m), 60), 0)\<close> builds from a
  minute of the day.\<close>

definition minute_time :: "int \<Rightarrow> time" where
  "minute_time m = \<lparr>hour = m div 60, minute = m mod 60, second = 0\<rparr>"

text \<open>Pass \<open>i\<close> of cell \<open>(y, x)\<close> passes the first three filters of the loop: neither
  value is the missing-value sentinel, the two pass times of the cell differ, and the
  test \<^verbatim>\<open>delta.days or abs(delta.seconds) >= 1800\<close> is false.\<close>

definition passes_window ::
  "config \<Rightarrow> datetime \<Rightarrow> int array3 \<Rightarrow> real array3 \<Rightarrow> nat \<Rightarrow> nat \<Rightarrow> nat \<Rightarrow> bool" where
  "passes_window CONFIG tc_dt minute_var wind_var y x i =
     (entry minute_var y x i \<noteq> minute_missing CONFIG
      \<and> entry wind_var y x i \<noteq> wind_missing CONFIG
      \<and> entry minute_var y x 0 \<noteq> entry minute_var y x 1
      \<and> days (dt_sub (combine (the_date tc_dt) (minute_time (entry minute_var y x i))) tc_dt)
          = 0
      \<and> \<bar>seconds (dt_sub (combine (the_date tc_dt) (minute_time (entry minute_var y x i)))
                    tc_dt)\<bar> < 1800)"

text \<open>The timestamp is in hour 23 and its rounded hour is 0: it rounds to the next
  calendar day.\<close>

definition rounds_to_next_day :: "datetime \<Rightarrow> bool" where
  "rounds_to_next_day t = (hour (the_time t) = 23 \<and> hour (the_time (hour_rounder t)) = 0)"

text \<open>The pass is appended to \<^verbatim>\<open>data\<close>: it passes all filters.\<close>

definition is_kept ::
  "config \<Rightarrow> string option \<Rightarrow> datetime \<Rightarrow> int array3 \<Rightarrow> real array3 \<Rightarrow> nat \<Rightarrow> nat \<Rightarrow> nat
   \<Rightarrow> bool" where
  "is_kept CONFIG tc_id tc_dt minute_var wind_var y x i =
     (passes_window CONFIG tc_dt minute_var wind_var y x i
      \<and> \<not> rounds_to_next_day
            (combine (the_date tc_dt) (minute_time (entry minute_var y x i)))
      \<and> tc_id \<noteq> None)"

text \<open>The row that the loop builds for pass \<open>i\<close> of cell \<open>(y, x)\<close>.\<close>

definition pixel_row ::
  "config \<Rightarrow> string option \<Rightarrow> datetime \<Rightarrow> real \<Rightarrow> real \<Rightarrow> int array3 \<Rightarrow> real array3
   \<Rightarrow> nat \<Rightarrow> nat \<Rightarrow> nat \<Rightarrow> row" where
  "pixel_row CONFIG tc_id tc_dt lat1 lon1 minute_var wind_var y x i =
     \<lparr>row_sid = tc_id,
      satel_datetime = combine (the_date tc_dt) (minute_time (entry minute_var y x i)),
      row_x = int x - half_edge_grid_intervals CONFIG,
      row_y = int y - half_edge_grid_intervals CONFIG,
      row_lon = real x * rss_spatial_resolution CONFIG + lon1,
      row_lat = real y * rss_spatial_resolution CONFIG + lat1,
      satel_datetime_lon_lat =
        (combine (the_date tc_dt) (minute_time (entry minute_var y x i)),
         real x * rss_spatial_resolution CONFIG + lon1,
         real y * rss_spatial_resolution CONFIG + lat1),
      smap_windspd = entry wind_var y x i,
      era5_datetime = None, satel_era5_diff_mins = None, era5_vars = Map.empty,
      era5_10m_neutral_equivalent_windspd = None, era5_10m_neutral_equivalent_winddir = None,
      smap_u_wind = None, smap_v_wind = None\<rparr>"

text \<open>The longitude and latitude of every pass of the window that passes the first three
  filters, in the order of the loops.\<close>

definition window_points ::
  "config \<Rightarrow> datetime \<Rightarrow> real \<Rightarrow> real \<Rightarrow> int array3 \<Rightarrow> real array3 \<Rightarrow> (real \<times> real) list" where
  "window_points CONFIG tc_dt lat1 lon1 minute_var wind_var =
     (case shape minute_var of (lats_num, lons_num, passes_num) \<Rightarrow>
        [(real x * rss_spatial_resolution CONFIG + lon1,
          real y * rss_spatial_resolution CONFIG + lat1).
           y \<leftarrow> [0..<lats_num], x \<leftarrow> [0..<lons_num], i \<leftarrow> [0..<passes_num],
           passes_window CONFIG tc_dt minute_var wind_var y x i])"

text \<open>The rows of the passes that are kept, in the order of the loops.\<close>

definition kept_rows ::
  "config \<Rightarrow> string option \<Rightarrow> datetime \<Rightarrow> real \<Rightarrow> real \<Rightarrow> int array3 \<Rightarrow> real array3
   \<Rightarrow> row list" where
  "kept_rows CONFIG tc_id tc_dt lat1 lon1 minute_var wind_var =
     (case shape minute_var of (lats_num, lons_num, passes_num) \<Rightarrow>
        [pixel_row CONFIG tc_id tc_dt lat1 lon1 minute_var wind_var y x i.
           y \<leftarrow> [0..<lats_num], x \<leftarrow> [0..<lons_num], i \<leftarrow> [0..<passes_num],
           is_kept CONFIG tc_id tc_dt minute_var wind_var y x i])"

text \<open>The envelope \<open>(north, west, south, east)\<close> of a list of points \<open>(lon, lat)\<close>, started
  from the initial values of the loop, and the envelope padded by half a degree.\<close>

definition envelope :: "(real \<times> real) list \<Rightarrow> real \<times> real \<times> real \<times> real" where
  "envelope pts =
     (Max (insert (- 90) (snd ` set pts)), Min (insert 360 (fst ` set pts)),
      Min (insert 90 (snd ` set pts)), Max (insert 0 (fst ` set pts)))"

definition padded :: "real \<times> real \<times> real \<times> real \<Rightarrow> real \<times> real \<times> real \<times> real" where
  "padded b = (case b of (n, w, s, e) \<Rightarrow> (n + 0.5, w - 0.5, s - 0.5, e + 0.5))"

definition env_step ::
  "real \<times> real \<Rightarrow> real \<times> real \<times> real \<times> real \<Rightarrow> real \<times> real \<times> real \<times> real" where
  "env_step p b =
     (case p of (lo, la) \<Rightarrow> case b of (n, w, s, e) \<Rightarrow> (max n la, min w lo, min s la, max e lo))"

definition bounds :: "scan \<Rightarrow> real \<times> real \<times> real \<times> real" where
  "bounds s = (sc_north s, sc_west s, sc_south s, sc_east s)"

text \<open>The run has not called \<^verbatim>\<open>get_hourtime_row_mapper\<close> with an empty list.\<close>

definition no_empty_call :: "world \<Rightarrow> bool" where
  "no_empty_call w = (Call_get_hourtime_row_mapper [] \<notin> set w)"


text \<open>The traversal of \<^verbatim>\<open>extract\<close> over the fixes before the one at \<open>idx\<close>.\<close>

definition fixes_before :: "'w detail \<Rightarrow> env \<Rightarrow> tc_record list \<Rightarrow> nat \<Rightarrow> 'w proc" where
  "fixes_before detail E tc_query idx =
     for_each (take idx (enumerate 0 tc_query))
       (\<lambda>(i, tc). try_except_exit (extract_fix detail E tc_query i tc))"
section \<open>Example inputs\<close>

text \<open>\<^verbatim>\<open>datetime.datetime(y, mo, d, h, mi, s)\<close>\<close>

definition py_datetime :: "int \<Rightarrow> int \<Rightarrow> int \<Rightarrow> int \<Rightarrow> int \<Rightarrow> int \<Rightarrow> datetime" where
  "py_datetime y mo d h mi s =
     \<lparr>the_date = \<lparr>year = y, month = mo, day = d\<rparr>,
      the_time = \<lparr>hour = h, minute = mi, second = s\<rparr>\<rparr>"

text \<open>Fixes of one track: two on 1 July 2015 half an hour apart, one two hours after the
  first, one two days after it.\<close>

definition fix_jul1 :: tc_record where
  "fix_jul1 = \<lparr>sid = Some ''2015183N13130'', date_time = py_datetime 2015 7 1 0 0 0,
               lon = 130, lat = 15\<rparr>"

definition fix_jul1_0030 :: tc_record where
  "fix_jul1_0030 = \<lparr>sid = Some ''2015183N13130'', date_time = py_datetime 2015 7 1 0 30 0,
                    lon = 130.5, lat = 15\<rparr>"

definition fix_jul1_0200 :: tc_record where
  "fix_jul1_0200 = \<lparr>sid = Some ''2015183N13130'', date_time = py_datetime 2015 7 1 2 0 0,
                    lon = 135, lat = 16\<rparr>"

definition fix_jul3 :: tc_record where
  "fix_jul3 = \<lparr>sid = Some ''2015183N13130'', date_time = py_datetime 2015 7 3 0 0 0,
               lon = 132, lat = 17\<rparr>"

text \<open>A configuration with the quarter-degree grid of the satellite product and a window of
  ten degrees, and the same with a resolution of half a degree.\<close>

definition config_quarter :: config where
  "config_quarter = \<lparr>rss_spatial_resolution = 0.25, edge_in_degree = 10,
       pres_lvls = [1000, 975, 950], minute_missing = - 9999, wind_missing = - 9999\<rparr>"


text \<open>Windows of the satellite file: one cell with two passes, and one row of two cells
  with two passes each; a file that gives the same window wherever it is read.\<close>

definition one_cell :: "'a \<Rightarrow> 'a \<Rightarrow> 'a array3" where
  "one_cell a b = \<lparr>shape = (1, 1, 2), entry = (\<lambda>y x i. if i = 0 then a else b)\<rparr>"

definition two_cells :: "'a \<Rightarrow> 'a \<Rightarrow> 'a \<Rightarrow> 'a \<Rightarrow> 'a array3" where
  "two_cells a b c d =
     \<lparr>shape = (1, 2, 2),
      entry = (\<lambda>y x i. if x = 0 then (if i = 0 then a else b) else (if i = 0 then c else d))\<rparr>"

definition file_of :: "int array3 \<Rightarrow> real array3 \<Rightarrow> smap_file" where
  "file_of minute_var wind_var lat_from lat_to lon_from lon_to = Inr (minute_var, wind_var)"

text \<open>Two cells late in the evening: the first has a pass at 23:25, the second one at
  23:40; the other pass of each is missing.\<close>

definition late_minutes :: "int array3" where
  "late_minutes = two_cells 1405 (- 9999) 1420 (- 9999)"

definition late_winds :: "real array3" where
  "late_winds = two_cells 12 12 12 12"

text \<open>A reanalysis field of three by three values with its coordinates, as
  \<^verbatim>\<open>grb.data\<close> gives it (north to south), and a message of a quarter of a degree that
  holds it.\<close>

definition field_3x3 :: "real list list" where
  "field_3x3 = [[1, 2, 3], [4, 5, 6], [7, 8, 9]]"

definition lats_3x3 :: "real list list" where
  "lats_3x3 = [[10.5, 10.5, 10.5], [10.25, 10.25, 10.25], [10, 10, 10]]"

definition lons_3x3 :: "real list list" where
  "lons_3x3 = [[145, 145.25, 145.5], [145, 145.25, 145.5], [145, 145.25, 145.5]]"

definition grb_example :: "string \<Rightarrow> real \<Rightarrow> grb" where
  "grb_example n lv =
     \<lparr>grb_name = n, jDirectionIncrementInDegrees = 0.25, level = lv,
      grb_data = (\<lambda>lat1 lat2 lon1 lon2. Inr (field_3x3, lats_3x3, lons_3x3))\<rparr>"

text \<open>Collaborators that never fail: nothing is land, the satellite file has one cell with
  one pass at 12:05, each reanalysis file has one message per hour, the corner lookup gives
  the cells 0 to 1 on both axes.\<close>

definition env_example :: env where
  "env_example =
     \<lparr>is_land = (\<lambda>la lo. False),
      longtitude_converter = (\<lambda>l. if l > 180 then l - 360 else l),
      create_smap_era5_table = (\<lambda>dt. None),
      smap_download = (\<lambda>dt. Inr (file_of (one_cell 725 (- 9999)) (one_cell 12 12))),
      download_single_levels_vars =
        (\<lambda>dt hourtimes area tc_id. Inr (\<lambda>was_closed hourtime.
           Inr [grb_example ''mean_sea_level_pressure'' 0])),
      download_pressure_levels_vars =
        (\<lambda>dt hourtimes area lvls tc_id. Inr (\<lambda>was_closed hourtime.
           Inr [grb_example ''temperature'' 950])),
      process_grib_message_name = (\<lambda>n. n),
      get_era5_corners_of_rss_cell =
        (\<lambda>la lo lats lons res. Inr ((10, 10.25, 145, 145.25), (0, 1, 0, 1))),
      interp2d = (\<lambda>xs ys zs x y. Inr (Finite 0)),
      compose_wind = (\<lambda>u v. Inr (Finite 0, Finite 0)),
      decompose_wind = (\<lambda>spd dir. Inr (Finite 0, Finite 0)),
      bulk_insert_avoid_duplicate_unique = (\<lambda>rows. None)\<rparr>"

text \<open>A row of 1 July 2015 at minute \<open>m\<close> of the day, and a batch of two rows at 23:25 and
  23:40 with the buckets that the bucketer builds for it.\<close>

definition row_at :: "int \<Rightarrow> row" where
  "row_at m = pixel_row config_quarter (Some ''2015183N13130'') (py_datetime 2015 7 1 0 0 0)
                10.125 145.125 (one_cell m (- 9999)) (one_cell 12 12) 0 0 0"

definition evening_batch :: "row list" where
  "evening_batch = [row_at 1405, row_at 1420]"

definition evening_mapper :: "int \<rightharpoonup> nat list" where
  "evening_mapper = (fold (\<lambda>hourtime m. m(hourtime \<mapsto> [])) hourtime_range Map.empty)(2300 \<mapsto> [0])"

text \<open>An index that has one message of the given name and level for every hour, and the
  evening batch after each resampling loop has run on it.\<close>

definition index_example :: "string \<Rightarrow> real \<Rightarrow> grib_index" where
  "index_example n lv was_closed hourtime = Inr [grb_example n lv]"

definition evening_step_1 :: "row list" where
  "evening_step_1 = [(row_at 1405)\<lparr>era5_datetime := Some (py_datetime 2015 7 1 23 0 0),
              satel_era5_diff_mins := Some 25,
              era5_vars := [''mean_sea_level_pressure'' \<mapsto> Finite 6]\<rparr>, row_at 1420]"

definition evening_step_2 :: "row list" where
  "evening_step_2 = [(row_at 1405)\<lparr>era5_vars := [''temperature'' \<mapsto> Finite 5]\<rparr>, row_at 1420]"


text \<open>A fix at noon of 1 July 2015, whose pixel (passed at 12:05) is matched: the row
  extracted for it, its bounding area, its buckets, the row after the surface loop, after
  the derived wind fields and after the pressure-level loop, and what the run does for it.\<close>

definition fix_noon :: tc_record where
  "fix_noon = \<lparr>sid = Some ''2015183N13130'', date_time = py_datetime 2015 7 1 12 0 0,
               lon = 150.125, lat = 15.125\<rparr>"

definition row_noon :: row where
  "row_noon = pixel_row config_quarter (Some ''2015183N13130'') (py_datetime 2015 7 1 12 0 0)
                10.125 145.125 (one_cell 725 (- 9999)) (one_cell 12 12) 0 0 0"

definition noon_area :: "real \<times> real \<times> real \<times> real" where
  "noon_area = (10.625, 144.625, 9.625, 145.625)"

definition noon_mapper :: "int \<rightharpoonup> nat list" where
  "noon_mapper = (fold (\<lambda>hourtime m. m(hourtime \<mapsto> [])) hourtime_range Map.empty)(1200 \<mapsto> [0])"

definition noon_resampled :: row where
  "noon_resampled = row_noon\<lparr>era5_datetime := Some (py_datetime 2015 7 1 12 0 0),
       satel_era5_diff_mins := Some 5,
       era5_vars := [''mean_sea_level_pressure'' \<mapsto> Finite 6]\<rparr>"

definition noon_step_1 :: row where
  "noon_step_1 = noon_resampled\<lparr>era5_10m_neutral_equivalent_windspd := Some (Finite 0),
       era5_10m_neutral_equivalent_winddir := Some (Finite 0),
       smap_u_wind := Some (Finite 0), smap_v_wind := Some (Finite 0)\<rparr>"

definition noon_step_2 :: row where
  "noon_step_2 = noon_step_1\<lparr>era5_vars :=
       [''mean_sea_level_pressure'' \<mapsto> Finite 6, ''temperature'' \<mapsto> Finite 5]\<rparr>"

definition noon_events :: world where
  "noon_events = [Call_get_hourtime_row_mapper [row_noon],
                  Call_get_hourtime_row_mapper [noon_step_1], Bulk_insert [noon_step_2]]"

text \<open>Collaborators as above, but the satellite provider has a file for 1 July 2015 only
  and fails on any other day; two fixes of another track on days without a file.\<close>

definition env_gap :: env where
  "env_gap = env_example\<lparr>smap_download :=
     (\<lambda>dt. if the_date dt = \<lparr>year = 2015, month = 7, day = 1\<rparr>
           then smap_download env_example dt else Inl (Failure ''no satellite file''))\<rparr>"

definition fix_jun30 :: tc_record where
  "fix_jun30 = \<lparr>sid = Some ''2015180N10140'', date_time = py_datetime 2015 6 30 6 0 0,
                lon = 140.125, lat = 10.125\<rparr>"

definition fix_jul2 :: tc_record where
  "fix_jul2 = \<lparr>sid = Some ''2015180N10140'', date_time = py_datetime 2015 7 2 0 0 0,
               lon = 141.125, lat = 11.125\<rparr>"

section \<open>Properties of the interpolator\<close>

lemmas calendar_defs = py_datetime_def dt_sub_def toordinal_def days_before_year_def
  days_before_month_def days_in_month_def is_leap_def seconds_of_day_def
  timedelta_of_seconds_def upto.simps

lemma for_each_note_point:
  "for_each ks (\<lambda>k. note_point (a k) (b k) (c k) (d k)) w
     = (None, w @ map (\<lambda>k. (a k, b k, c k, d k)) ks)"
  by (induction ks arbitrary: w) (simp_all add: note_point_def)

text \<open>
  C3, as the code has it. When the time delta of two consecutive fixes of a track has a
  day or more, \<^verbatim>\<open>extract_between_two_tc_records\<close> does not interpolate: it makes one
  call of \<^verbatim>\<open>extract_detail\<close>, at the timestamp, longitude and latitude of the first
  fix of the pair.
\<close>

theorem far_apart_extracts_first_fix:
  "1 \<le> days (dt_sub (date_time next_tc) (date_time tc)) \<Longrightarrow>
   extract_between_two_tc_records detail tc next_tc w
     = detail (sid tc) (date_time tc) (lon tc) (lat tc) w"
  by (simp add: extract_between_two_tc_records_def Let_def)

theorem far_apart_extracts_first_fix_witness:
  "1 \<le> days (dt_sub (date_time fix_jul3) (date_time fix_jul1)) \<and>
   extract_between_two_tc_records note_point fix_jul1 fix_jul3 []
     = (None, [(Some ''2015183N13130'', py_datetime 2015 7 1 0 0 0, 130, 15)])"
proof -
  have far: "1 \<le> days (dt_sub (date_time fix_jul3) (date_time fix_jul1))"
    by (simp add: fix_jul1_def fix_jul3_def calendar_defs)
  show ?thesis
    using far far_apart_extracts_first_fix [OF far, of note_point "[]"]
    by (simp add: note_point_def fix_jul1_def)
qed

text \<open>
  C3, as the spec states it, fails: for the fixes of 1 July and 3 July, two days apart, the
  points extracted are not the single point of the second fix.
\<close>

theorem far_apart_not_second_fix:
  "days (dt_sub (date_time fix_jul3) (date_time fix_jul1)) = 2 \<and>
   snd (extract_between_two_tc_records note_point fix_jul1 fix_jul3 [])
     \<noteq> [(sid fix_jul3, date_time fix_jul3, lon fix_jul3, lat fix_jul3)]"
  by (simp add: extract_between_two_tc_records_def Let_def note_point_def fix_jul1_def
      fix_jul3_def calendar_defs)

text \<open>
  For a gap of less than a day and of \<open>H \<ge> 1\<close> whole hours the interpolator extracts at
  exactly \<open>H\<close> points, for the hours \<open>h = 0, \<dots>, H - 1\<close>, and the point of hour \<open>h\<close> is
  the linear interpolant on each axis.
\<close>

lemma interpolated_points:
  assumes "days (dt_sub (date_time next_tc) (date_time tc)) = 0"
    and "H = seconds (dt_sub (date_time next_tc) (date_time tc)) div 3600"
    and "0 < H"
  shows "extract_between_two_tc_records note_point tc next_tc w =
     (None, w @ map (\<lambda>h. (sid tc, dt_add_seconds (date_time tc) (h * 3600),
               lon tc + real h / real_of_int H * (lon next_tc - lon tc),
               lat tc + real h / real_of_int H * (lat next_tc - lat tc))) [0..<nat H])"
  using assms
  by (simp add: extract_between_two_tc_records_def Let_def get_center_shift_of_two_tcs_def
      for_each_note_point add.commute)

lemma interpolated_points_two_hours:
  "extract_between_two_tc_records note_point fix_jul1 fix_jul1_0200 [] =
     (None, [(Some ''2015183N13130'', py_datetime 2015 7 1 0 0 0, 130, 15),
             (Some ''2015183N13130'', py_datetime 2015 7 1 1 0 0, 132.5, 15.5)])"
  by (simp add: extract_between_two_tc_records_def Let_def note_point_def fix_jul1_def
      fix_jul1_0200_def calendar_defs get_center_shift_of_two_tcs_def dt_add_seconds_def
      time_of_seconds_def upt_rec)

text \<open>
  C7 at a gap of \<open>H = 0\<close> whole hours. The two fixes are half an hour apart, so the claim
  asks for zero interpolated points; the code divides the shift by \<^verbatim>\<open>hours = 0\<close> and
  raises \<^verbatim>\<open>ZeroDivisionError\<close> before any extraction.
\<close>

theorem gap_under_one_hour_raises:
  "days (dt_sub (date_time fix_jul1_0030) (date_time fix_jul1)) = 0 \<and>
   seconds (dt_sub (date_time fix_jul1_0030) (date_time fix_jul1)) div 3600 = 0 \<and>
   extract_between_two_tc_records note_point fix_jul1 fix_jul1_0030 []
     = (Some (Exception ZeroDivisionError), [])"
  by (simp add: extract_between_two_tc_records_def Let_def fix_jul1_def fix_jul1_0030_def
      calendar_defs get_center_shift_of_two_tcs_def)

section \<open>Properties of the bounding square\<close>

lemma nearest_scan_keeps_hit: "nearest_scan gs v i (v, bi) = (v, bi)"
  by (induction gs arbitrary: i) simp_all

lemma nearest_scan_first_hit:
  "k < length gs \<Longrightarrow> gs ! k = v \<Longrightarrow> (\<forall>j<k. gs ! j \<noteq> v) \<Longrightarrow> b \<noteq> v \<Longrightarrow>
   nearest_scan gs v i (b, bi) = (v, i + k)"
proof (induction gs arbitrary: k i b bi)
  case Nil
  then show ?case by simp
next
  case (Cons g gs)
  show ?case
  proof (cases k)
    case 0
    with Cons.prems show ?thesis by (simp add: nearest_scan_keeps_hit)
  next
    case (Suc k')
    with Cons.prems have g: "g \<noteq> v" by auto
    from Suc Cons.prems have k': "k' < length gs" "gs ! k' = v" "\<forall>j<k'. gs ! j \<noteq> v"
      by auto
    show ?thesis
      using Cons.IH [OF k'(1) k'(2) k'(3), of g "Suc i" i]
            Cons.IH [OF k'(1) k'(2) k'(3) Cons.prems(4), of "Suc i" bi] g Suc
      by simp
  qed
qed

text \<open>A coordinate that is a grid value is its own nearest element, at the first index
  that holds it.\<close>

lemma nearest_exact:
  assumes "k < length gs" "gs ! k = v" "\<forall>j<k. gs ! j \<noteq> v"
  shows "get_nearest_element_and_index gs v = Inr (v, k)"
proof (cases gs)
  case Nil
  with assms show ?thesis by simp
next
  case (Cons g gs')
  show ?thesis
  proof (cases k)
    case 0
    with assms Cons show ?thesis
      by (simp add: get_nearest_element_and_index_def nearest_scan_keeps_hit)
  next
    case (Suc k')
    with assms Cons have "g \<noteq> v" by auto
    moreover from Suc assms Cons
    have "k' < length gs'" "gs' ! k' = v" "\<forall>j<k'. gs' ! j \<noteq> v"
      by auto
    ultimately show ?thesis
      using nearest_scan_first_hit [of k' gs' v g 1 0] Cons Suc
      by (simp add: get_nearest_element_and_index_def)
  qed
qed

lemma nearest_lat_on_grid:
  assumes "k < 720" "rss_spatial_resolution C \<noteq> 0"
  shows "get_nearest_element_and_index (lats_smap C)
           (real k * rss_spatial_resolution C - 89.875)
          = Inr (real k * rss_spatial_resolution C - 89.875, k)"
  using assms by (intro nearest_exact) (auto simp: lats_smap_def)

lemma nearest_lon_on_grid:
  assumes "k < 1440" "rss_spatial_resolution C \<noteq> 0"
  shows "get_nearest_element_and_index (lons_smap C)
           (real k * rss_spatial_resolution C + 0.125)
          = Inr (real k * rss_spatial_resolution C + 0.125, k)"
  using assms by (intro nearest_exact) (auto simp: lons_smap_def)

lemma half_quarter: "half_edge_grid_intervals config_quarter = 20"
  by (simp add: half_edge_grid_intervals_def config_quarter_def py_int_def)


lemma res_quarter: "rss_spatial_resolution config_quarter = 1 / 4"
  by (simp add: config_quarter_def)


lemmas square_defs = get_square_around_tc_def py_index_def lats_smap_def lons_smap_def
  py_fmod_def Let_def

text \<open>A latitude read from the grid by an index lies on the grid. On a grid of at most a
  quarter of a degree all of it is between the poles, so the test
  \<^verbatim>\<open>lat1 < -90 or lat2 > 90\<close> is never true: the lookup never signals failure.\<close>

lemma py_index_in_set: "py_index xs i = Inr v \<Longrightarrow> v \<in> set xs"
  by (auto simp: py_index_def split: if_splits)

lemma lats_smap_between_poles:
  assumes "0 \<le> rss_spatial_resolution C" "rss_spatial_resolution C \<le> 1 / 4"
    and "v \<in> set (lats_smap C)"
  shows "- 90 \<le> v \<and> v \<le> 90"
proof -
  from assms(3) obtain k :: nat where k: "k < 720" "v = real k * rss_spatial_resolution C - 89.875"
    by (auto simp: lats_smap_def)
  have "0 \<le> real k * rss_spatial_resolution C"
    using assms(1) by simp
  moreover have "real k * rss_spatial_resolution C \<le> 719 * (1 / 4)"
    using k(1) assms(1,2) by (intro mult_mono) simp_all
  ultimately show ?thesis using k(2) by simp
qed

lemma pole_check_never_fires:
  assumes "0 \<le> rss_spatial_resolution C" "rss_spatial_resolution C \<le> 1 / 4"
    and "get_square_around_tc C tc_lon tc_lat
           = Inr (success, lat1_idx, lat2_idx, lon1_idx, lon2_idx, lat1, lon1)"
  shows "success"
proof -
  from assms(3) have "\<exists>lat2'. py_index (lats_smap C) lat1_idx = Inr lat1
      \<and> py_index (lats_smap C) lat2_idx = Inr lat2'
      \<and> success = (\<not> (lat1 < - 90 \<or> lat2' > 90))"
    by (auto simp: get_square_around_tc_def Let_def split: sum.splits prod.splits if_splits)
  then obtain lat2' where
    r: "py_index (lats_smap C) lat1_idx = Inr lat1" "py_index (lats_smap C) lat2_idx = Inr lat2'"
       "success = (\<not> (lat1 < - 90 \<or> lat2' > 90))"
    by blast
  have "- 90 \<le> lat1" "lat2' \<le> 90"
    using lats_smap_between_poles [OF assms(1,2)] py_index_in_set [OF r(1)]
          py_index_in_set [OF r(2)] by auto
  with r(3) show ?thesis by simp
qed

text \<open>
  C5 at two centres next to the poles, on the quarter-degree grid with a half window of 20
  grid steps. At latitude -89.875 the south edge of the centred window would be at
  -94.875: the code reads \<^verbatim>\<open>lats[-20]\<close>, which is the latitude 85.125 counted from the
  end of the list, and signals success. At latitude 89.875 the north edge would be at
  94.875: the code reads \<^verbatim>\<open>lats[739]\<close> and raises \<^verbatim>\<open>IndexError\<close>.
\<close>

theorem square_at_the_poles:
  "- 89.875 - real_of_int (half_edge_grid_intervals config_quarter)
       * rss_spatial_resolution config_quarter < - 90 \<and>
   get_square_around_tc config_quarter 150.125 (- 89.875)
     = Inr (True, - 20, 20, 580, 620, 85.125, 145.125) \<and>
   get_square_around_tc config_quarter 150.125 89.875 = Inl IndexError"
proof -
  have south: "get_square_around_tc config_quarter 150.125 (- 89.875)
     = Inr (True, - 20, 20, 580, 620, 85.125, 145.125)"
    using nearest_lat_on_grid [of 0 config_quarter] nearest_lon_on_grid [of 600 config_quarter]
    by (simp add: square_defs half_quarter res_quarter)
  have north: "get_square_around_tc config_quarter 150.125 89.875 = Inl IndexError"
    using nearest_lat_on_grid [of 719 config_quarter]
          nearest_lon_on_grid [of 600 config_quarter]
    by (simp add: square_defs half_quarter res_quarter)
  show ?thesis
    using south north by (simp add: half_quarter res_quarter)
qed

section \<open>Properties of the swath extractor\<close>

lemma py_time_minute:
  "py_time (m div 60) (m mod 60) 0 = Inr t \<Longrightarrow> t = minute_time m"
  by (auto simp: py_time_def minute_time_def split: if_splits)

lemma scan_pixel_Inr:
  assumes "scan_pixel C tc_id tc_dt lat1 lon1 mv wv y x i s = Inr s'"
  shows "s' =
    (if passes_window C tc_dt mv wv y x i
     then (let s4 = widen_lat (real y * rss_spatial_resolution C + lat1)
                      (widen_lon (real x * rss_spatial_resolution C + lon1) s)
           in if is_kept C tc_id tc_dt mv wv y x i
              then s4\<lparr>sc_data := sc_data s4 @ [pixel_row C tc_id tc_dt lat1 lon1 mv wv y x i],
                      sc_hourtimes := List.insert
                        (hour (the_time (hour_rounder (combine (the_date tc_dt) (minute_time (entry mv y x i))))))
                        (sc_hourtimes s4)\<rparr>
              else s4)
     else s)"
proof (cases "entry mv y x i = minute_missing C \<or> entry wv y x i = wind_missing C")
  case True
  then show ?thesis using assms by (auto simp: scan_pixel_def passes_window_def)
next
  case present: False
  show ?thesis
  proof (cases "snd (snd (shape mv)) < 2")
    case True
    then show ?thesis using assms present by (simp add: scan_pixel_def)
  next
    case two: False
    show ?thesis
    proof (cases "entry mv y x 0 = entry mv y x 1")
      case True
      then show ?thesis using assms present two by (simp add: scan_pixel_def passes_window_def)
    next
      case differ: False
      show ?thesis
      proof (cases "py_time (entry mv y x i div 60) (entry mv y x i mod 60) 0")
        case (Inl e)
        then show ?thesis using assms present two differ by (simp add: scan_pixel_def)
      next
        case (Inr t)
        then have t: "t = minute_time (entry mv y x i)" by (rule py_time_minute)
        show ?thesis
        proof (cases "days (dt_sub (combine (the_date tc_dt) t) tc_dt) \<noteq> 0
                      \<or> \<bar>seconds (dt_sub (combine (the_date tc_dt) t) tc_dt)\<bar> \<ge> 1800")
          case True
          then have "s' = s" using assms present two differ Inr by (simp add: scan_pixel_def Let_def)
          moreover have "\<not> passes_window C tc_dt mv wv y x i"
            using True t by (auto simp: passes_window_def)
          ultimately show ?thesis by simp
        next
          case False
          then have pw: "passes_window C tc_dt mv wv y x i"
            using present differ t by (auto simp: passes_window_def)
          show ?thesis
            using assms present two differ Inr False pw
            by (auto simp add: scan_pixel_def Let_def is_kept_def rounds_to_next_day_def pixel_row_def t
                  combine_def split: if_splits)
        qed
      qed
    qed
  qed
qed


lemma for_loop_fold:
  assumes "\<And>k s s'. k \<in> set ks \<Longrightarrow> body k s = Inr s' \<Longrightarrow> g s' = fold f (c k) (g s)"
  shows "for_loop ks body s = Inr s' \<Longrightarrow> g s' = fold f (concat (map c ks)) (g s)"
  using assms
proof (induction ks arbitrary: s)
  case Nil
  then show ?case by simp
next
  case (Cons k ks)
  from Cons.prems(1) obtain s1 where s1: "body k s = Inr s1" "for_loop ks body s1 = Inr s'"
    by (auto split: sum.splits)
  have "g s1 = fold f (c k) (g s)" using Cons.prems(2) s1(1) by simp
  moreover have "g s' = fold f (concat (map c ks)) (g s1)"
    using Cons.IH [OF s1(2)] Cons.prems(2) by simp
  ultimately show ?case by simp
qed

lemma bounds_widen:
  "bounds (widen_lat la (widen_lon lo s)) = env_step (lo, la) (bounds s)"
  by (simp add: bounds_def widen_lat_def widen_lon_def env_step_def Let_def max_def min_def)

lemma sc_data_widen: "sc_data (widen_lat la (widen_lon lo s)) = sc_data s"
  by (simp add: widen_lat_def widen_lon_def Let_def)

lemma scan_pixel_bounds:
  assumes "scan_pixel C tc_id tc_dt lat1 lon1 mv wv y x i s = Inr s'"
  shows "bounds s' = fold env_step
           (if passes_window C tc_dt mv wv y x i
            then [(real x * rss_spatial_resolution C + lon1, real y * rss_spatial_resolution C + lat1)] else [])
           (bounds s)"
proof -
  have "bounds (s4\<lparr>sc_data := d, sc_hourtimes := h\<rparr>) = bounds s4" for s4 d h
    by (simp add: bounds_def)
  then show ?thesis
    unfolding scan_pixel_Inr [OF assms] by (simp add: Let_def bounds_widen)
qed

lemma scan_pixel_data:
  assumes "scan_pixel C tc_id tc_dt lat1 lon1 mv wv y x i s = Inr s'"
  shows "sc_data s' = fold (\<lambda>r acc. acc @ [r])
           (if is_kept C tc_id tc_dt mv wv y x i
            then [pixel_row C tc_id tc_dt lat1 lon1 mv wv y x i] else [])
           (sc_data s)"
  unfolding scan_pixel_Inr [OF assms] by (simp add: Let_def sc_data_widen is_kept_def)

lemma Max_insert_max:
  "finite S \<Longrightarrow> Max (insert (max a b) S) = Max (insert (a::real) (insert b S))"
  by (cases "S = {}") (simp_all add: max.assoc)

lemma Min_insert_min:
  "finite S \<Longrightarrow> Min (insert (min a b) S) = Min (insert (a::real) (insert b S))"
  by (cases "S = {}") (simp_all add: min.assoc)

lemma fold_env_step:
  "fold env_step pts (n, w, s, e) =
     (Max (insert n (snd ` set pts)), Min (insert w (fst ` set pts)),
      Min (insert s (snd ` set pts)), Max (insert e (fst ` set pts)))"
proof (induction pts arbitrary: n w s e)
  case Nil
  then show ?case by simp
next
  case (Cons p pts)
  obtain lo la where p: "p = (lo, la)" by (cases p)
  have "fold env_step (p # pts) (n, w, s, e) = fold env_step pts (max n la, min w lo, min s la, max e lo)"
    by (simp add: p env_step_def)
  also have "\<dots> = (Max (insert (max n la) (snd ` set pts)), Min (insert (min w lo) (fst ` set pts)),
      Min (insert (min s la) (snd ` set pts)), Max (insert (max e lo) (fst ` set pts)))"
    by (rule Cons.IH)
  finally show ?case
    by (simp only: Max_insert_max Min_insert_min finite_imageI finite_set p list.set image_insert fst_conv snd_conv)
qed

lemma fold_snoc: "fold (\<lambda>r acc. acc @ [r]) rs acc = acc @ rs"
  by (induction rs arbitrary: acc) simp_all

lemma scan_window_bounds:
  assumes "scan_window C tc_id tc_dt lat1 lon1 mv wv = Inr s"
  shows "bounds s = envelope (window_points C tc_dt lat1 lon1 mv wv)"
proof -
  obtain ln xn pn where sh: "shape mv = (ln, xn, pn)" by (cases "shape mv")
  let ?pix = "\<lambda>y x i. if passes_window C tc_dt mv wv y x i
            then [(real x * rss_spatial_resolution C + lon1, real y * rss_spatial_resolution C + lat1)] else []"
  have inner: "\<And>y x s s'. for_loop [0..<pn] (scan_pixel C tc_id tc_dt lat1 lon1 mv wv y x) s = Inr s'
       \<Longrightarrow> bounds s' = fold env_step (concat (map (?pix y x) [0..<pn])) (bounds s)"
    by (rule for_loop_fold) (rule scan_pixel_bounds)
  have middle: "\<And>y s s'. for_loop [0..<xn] (\<lambda>x. for_loop [0..<pn] (scan_pixel C tc_id tc_dt lat1 lon1 mv wv y x)) s = Inr s'
       \<Longrightarrow> bounds s' = fold env_step (concat (map (\<lambda>x. concat (map (?pix y x) [0..<pn])) [0..<xn])) (bounds s)"
    by (rule for_loop_fold) (rule inner)
  have outer: "\<And>s s'. for_loop [0..<ln] (\<lambda>y. for_loop [0..<xn] (\<lambda>x. for_loop [0..<pn] (scan_pixel C tc_id tc_dt lat1 lon1 mv wv y x))) s = Inr s'
       \<Longrightarrow> bounds s' = fold env_step (concat (map (\<lambda>y. concat (map (\<lambda>x. concat (map (?pix y x) [0..<pn])) [0..<xn])) [0..<ln])) (bounds s)"
    by (rule for_loop_fold) (rule middle)
  have run: "for_loop [0..<ln] (\<lambda>y. for_loop [0..<xn] (\<lambda>x. for_loop [0..<pn] (scan_pixel C tc_id tc_dt lat1 lon1 mv wv y x))) scan_init = Inr s"
    using assms unfolding scan_window_def sh by simp
  have pts: "window_points C tc_dt lat1 lon1 mv wv
     = concat (map (\<lambda>y. concat (map (\<lambda>x. concat (map (?pix y x) [0..<pn])) [0..<xn])) [0..<ln])"
    unfolding window_points_def sh by simp
  have "bounds s = fold env_step (window_points C tc_dt lat1 lon1 mv wv) (bounds scan_init)"
    unfolding pts by (rule outer [OF run])
  also have "bounds scan_init = (- 90, 360, 90, 0)"
    by (simp add: bounds_def scan_init_def)
  finally show ?thesis
    by (simp only: fold_env_step envelope_def)
qed

lemma scan_window_data:
  assumes "scan_window C tc_id tc_dt lat1 lon1 mv wv = Inr s"
  shows "sc_data s = kept_rows C tc_id tc_dt lat1 lon1 mv wv"
proof -
  obtain ln xn pn where sh: "shape mv = (ln, xn, pn)" by (cases "shape mv")
  let ?pix = "\<lambda>y x i. if is_kept C tc_id tc_dt mv wv y x i
            then [pixel_row C tc_id tc_dt lat1 lon1 mv wv y x i] else []"
  let ?f = "\<lambda>r acc. acc @ [r]"
  have inner: "\<And>y x s s'. for_loop [0..<pn] (scan_pixel C tc_id tc_dt lat1 lon1 mv wv y x) s = Inr s'
       \<Longrightarrow> sc_data s' = fold ?f (concat (map (?pix y x) [0..<pn])) (sc_data s)"
    by (rule for_loop_fold) (rule scan_pixel_data)
  have middle: "\<And>y s s'. for_loop [0..<xn] (\<lambda>x. for_loop [0..<pn] (scan_pixel C tc_id tc_dt lat1 lon1 mv wv y x)) s = Inr s'
       \<Longrightarrow> sc_data s' = fold ?f (concat (map (\<lambda>x. concat (map (?pix y x) [0..<pn])) [0..<xn])) (sc_data s)"
    by (rule for_loop_fold) (rule inner)
  have outer: "\<And>s s'. for_loop [0..<ln] (\<lambda>y. for_loop [0..<xn] (\<lambda>x. for_loop [0..<pn] (scan_pixel C tc_id tc_dt lat1 lon1 mv wv y x))) s = Inr s'
       \<Longrightarrow> sc_data s' = fold ?f (concat (map (\<lambda>y. concat (map (\<lambda>x. concat (map (?pix y x) [0..<pn])) [0..<xn])) [0..<ln])) (sc_data s)"
    by (rule for_loop_fold) (rule middle)
  have run: "for_loop [0..<ln] (\<lambda>y. for_loop [0..<xn] (\<lambda>x. for_loop [0..<pn] (scan_pixel C tc_id tc_dt lat1 lon1 mv wv y x))) scan_init = Inr s"
    using assms unfolding scan_window_def sh by simp
  have pts: "kept_rows C tc_id tc_dt lat1 lon1 mv wv
     = concat (map (\<lambda>y. concat (map (\<lambda>x. concat (map (?pix y x) [0..<pn])) [0..<xn])) [0..<ln])"
    unfolding kept_rows_def sh by simp
  have "sc_data s = fold ?f (kept_rows C tc_id tc_dt lat1 lon1 mv wv) (sc_data scan_init)"
    unfolding pts by (rule outer [OF run])
  then show ?thesis by (simp add: fold_snoc scan_init_def)
qed

lemma dt_sub_same_date:
  "dt_sub (combine (the_date t) u) t
     = timedelta_of_seconds (seconds_of_day u - seconds_of_day (the_time t))"
  by (simp add: dt_sub_def combine_def)

lemma seconds_of_minute_time: "seconds_of_day (minute_time m) = 60 * m"
proof -
  have "m div 60 * 3600 + m mod 60 * 60 = 60 * m"
    using div_mult_mod_eq [of m 60] by linarith
  then show ?thesis by (simp add: seconds_of_day_def minute_time_def)
qed


lemma d1: "- 86400 < n \<Longrightarrow> n < 0 \<Longrightarrow> n div 86400 = (- 1::int)"
  by (simp add: div_eq_minus1 zdiv_eq_0_iff div_less_iff_less_mult)


lemma window_test_one_sided:
  assumes "- 86400 < n" "n < 86400"
  shows "(days (timedelta_of_seconds n) = 0 \<and> \<bar>seconds (timedelta_of_seconds n)\<bar> < 1800)
         \<longleftrightarrow> (0 \<le> n \<and> n < 1800)"
proof (cases "0 \<le> n")
  case True
  with assms have "n div 86400 = 0" "n mod 86400 = n" by simp_all
  with True show ?thesis by (simp add: timedelta_of_seconds_def)
next
  case False
  with assms have "n div 86400 = - 1" by (simp add: d1)
  with False show ?thesis by (simp add: timedelta_of_seconds_def)
qed

lemma passes_window_iff:
  assumes "0 \<le> entry mv y x i" "entry mv y x i < 1440"
    and "0 \<le> seconds_of_day (the_time tc_dt)" "seconds_of_day (the_time tc_dt) < 86400"
  shows "passes_window C tc_dt mv wv y x i \<longleftrightarrow>
     (entry mv y x i \<noteq> minute_missing C \<and> entry wv y x i \<noteq> wind_missing C
      \<and> entry mv y x 0 \<noteq> entry mv y x 1
      \<and> 0 \<le> 60 * entry mv y x i - seconds_of_day (the_time tc_dt)
      \<and> 60 * entry mv y x i - seconds_of_day (the_time tc_dt) < 1800)"
proof -
  let ?n = "60 * entry mv y x i - seconds_of_day (the_time tc_dt)"
  have "- 86400 < ?n" "?n < 86400" using assms by linarith+
  from window_test_one_sided [OF this] show ?thesis
    unfolding passes_window_def dt_sub_same_date seconds_of_minute_time by blast
qed


text \<open>
  The time filter of the loop, for a minute of the day \<open>m\<close> and a query time on the clock:
  a pass is inside the window exactly when its timestamp is at or after the query time and
  less than 1800 seconds after it. A timestamp before the query time gives a negative
  \<^verbatim>\<open>timedelta\<close>, whose \<^verbatim>\<open>days\<close> is -1, and is dropped whatever its distance.
\<close>

lemmas scan_eval = scan_window_def scan_pixel_def scan_init_def widen_lon_def widen_lat_def
  py_time_def combine_def dt_sub_def seconds_of_day_def timedelta_of_seconds_def
  hour_rounder_def dt_add_seconds_def time_of_seconds_def Let_def upt_rec

text \<open>
  C2 at a pass 1799 seconds before the query time. The query time is 12:29:59 and the cell
  has passes at 12:00 (minute 720, 1799 seconds earlier) and at 12:59 (minute 779, 1741
  seconds later), both on the query date. The claim keeps both; the loop keeps only the
  later one.
\<close>

theorem earlier_pixel_is_dropped:
  "seconds_of_day (minute_time 720) - seconds_of_day (the_time (py_datetime 2015 7 1 12 29 59))
     = - 1799 \<and>
   scan_window config_quarter (Some ''2015183N13130'') (py_datetime 2015 7 1 12 29 59)
       10.125 145.125 (one_cell 720 779) (one_cell 12.5 13.5)
     = Inr \<lparr>sc_data = [pixel_row config_quarter (Some ''2015183N13130'')
                           (py_datetime 2015 7 1 12 29 59) 10.125 145.125
                           (one_cell 720 779) (one_cell 12.5 13.5) 0 0 1],
             sc_north = 10.125, sc_west = 145.125, sc_south = 10.125, sc_east = 145.125,
             sc_hourtimes = [13]\<rparr> \<and>
   satel_datetime (pixel_row config_quarter (Some ''2015183N13130'')
                           (py_datetime 2015 7 1 12 29 59) 10.125 145.125
                           (one_cell 720 779) (one_cell 12.5 13.5) 0 0 1)
     = py_datetime 2015 7 1 12 59 0"
  by (simp add: scan_eval one_cell_def config_quarter_def py_datetime_def pixel_row_def minute_time_def)


lemma square_at_15N:
  "get_square_around_tc config_quarter 150.125 15.125
     = Inr (True, 400, 440, 580, 620, 10.125, 145.125)"
  using nearest_lat_on_grid [of 420 config_quarter] nearest_lon_on_grid [of 600 config_quarter]
  by (simp add: square_defs half_quarter res_quarter)

text \<open>
  C9, as the code has it. The area that \<^verbatim>\<open>get_smap_part\<close> returns is the envelope,
  started from north = -90, west = 360, south = 90, east = 0, of the longitudes and
  latitudes of the passes that pass the missing-value, equal-pass-time and time-window
  filters, padded by 0.5 on every side. The two later filters (rounding to the next day, an
  unset column) drop a row after the envelope has been widened by it.
\<close>

theorem area_is_padded_envelope_of_window:
  assumes "get_square_around_tc C tc_lon tc_lat
             = Inr (success, lat1_idx, lat2_idx, lon1_idx, lon2_idx, lat1, lon1)"
    and "smap_file lat1_idx (lat2_idx + 1) lon1_idx (lon2_idx + 1) = Inr (minute_var, wind_var)"
    and "get_smap_part C tc_id tc_dt tc_lon tc_lat smap_file
             = Inr (Data_Hourtimes_Area d hourtimes area)"
  shows "area = padded (envelope (window_points C tc_dt lat1 lon1 minute_var wind_var))"
proof -
  from assms obtain s where
    s: "scan_window C tc_id tc_dt lat1 lon1 minute_var wind_var = Inr s"
       "area = (sc_north s + 0.5, sc_west s - 0.5, sc_south s - 0.5, sc_east s + 0.5)"
    by (auto simp: get_smap_part_def Let_def split: if_splits sum.splits)
  have "area = padded (bounds s)"
    by (simp add: s(2) padded_def bounds_def)
  then show ?thesis
    by (simp only: scan_window_bounds [OF s(1)])
qed

lemma late_scan:
  "scan_window config_quarter (Some ''2015183N13130'') (py_datetime 2015 7 1 23 20 0)
      10.125 145.125 late_minutes late_winds
     = Inr \<lparr>sc_data = [pixel_row config_quarter (Some ''2015183N13130'')
                 (py_datetime 2015 7 1 23 20 0) 10.125 145.125 late_minutes late_winds 0 0 0],
             sc_north = 10.125, sc_west = 145.125, sc_south = 10.125, sc_east = 145.375,
             sc_hourtimes = [23]\<rparr>"
  by (simp add: scan_eval late_minutes_def late_winds_def
        two_cells_def config_quarter_def py_datetime_def pixel_row_def minute_time_def)

lemma late_part:
  "get_smap_part config_quarter (Some ''2015183N13130'') (py_datetime 2015 7 1 23 20 0)
       150.125 15.125 (file_of late_minutes late_winds)
     = Inr (Data_Hourtimes_Area
         [pixel_row config_quarter (Some ''2015183N13130'') (py_datetime 2015 7 1 23 20 0)
            10.125 145.125 late_minutes late_winds 0 0 0]
         [23] (10.625, 144.625, 9.625, 145.875))"
  using late_scan square_at_15N by (simp add: get_smap_part_def file_of_def)

lemma late_window_points:
  "window_points config_quarter (py_datetime 2015 7 1 23 20 0) 10.125 145.125
      late_minutes late_winds = [(145.125, 10.125), (145.375, 10.125)]"
  by (simp add: window_points_def passes_window_def late_minutes_def late_winds_def
        two_cells_def config_quarter_def py_datetime_def minute_time_def combine_def dt_sub_def
        seconds_of_day_def timedelta_of_seconds_def upt_rec)

theorem area_is_padded_envelope_of_window_witness:
  "get_square_around_tc config_quarter 150.125 15.125
     = Inr (True, 400, 440, 580, 620, 10.125, 145.125) \<and>
   file_of late_minutes late_winds 400 (440 + 1) 580 (620 + 1) = Inr (late_minutes, late_winds) \<and>
   window_points config_quarter (py_datetime 2015 7 1 23 20 0) 10.125 145.125
      late_minutes late_winds = [(145.125, 10.125), (145.375, 10.125)] \<and>
   (10.625, 144.625, 9.625, 145.875)
     = padded (envelope (window_points config_quarter (py_datetime 2015 7 1 23 20 0)
                           10.125 145.125 late_minutes late_winds))"
proof -
  have rd: "file_of late_minutes late_winds 400 (440 + 1) 580 (620 + 1)
              = Inr (late_minutes, late_winds)"
    by (simp add: file_of_def)
  show ?thesis
    using area_is_padded_envelope_of_window [OF square_at_15N rd late_part] rd
    by (simp only: square_at_15N late_window_points simp_thms)
qed

text \<open>
  C9, as the spec states it, fails. The query time is 23:20; the pass at 23:25 (longitude
  145.125) is kept, the pass at 23:40 (longitude 145.375) rounds to the next day and is
  dropped. The east edge of the area is 145.875, not the largest kept longitude plus 0.5.
\<close>

theorem area_is_not_envelope_of_kept:
  "get_smap_part config_quarter (Some ''2015183N13130'') (py_datetime 2015 7 1 23 20 0)
       150.125 15.125 (file_of late_minutes late_winds)
     = Inr (Data_Hourtimes_Area
         [pixel_row config_quarter (Some ''2015183N13130'') (py_datetime 2015 7 1 23 20 0)
            10.125 145.125 late_minutes late_winds 0 0 0]
         [23] (10.625, 144.625, 9.625, 145.875)) \<and>
   row_lon (pixel_row config_quarter (Some ''2015183N13130'') (py_datetime 2015 7 1 23 20 0)
            10.125 145.125 late_minutes late_winds 0 0 0) = 145.125 \<and>
   row_lon (pixel_row config_quarter (Some ''2015183N13130'') (py_datetime 2015 7 1 23 20 0)
            10.125 145.125 late_minutes late_winds 0 0 0) + 0.5 \<noteq> (145.875 :: real)"
  using late_part by (simp add: pixel_row_def res_quarter)

section \<open>Properties of the hour bucketer and of the resampling loops\<close>

lemma for_loop_invariant:
  assumes "for_loop ks body s = Inr s'" "I s"
    and "\<And>k s s'. k \<in> set ks \<Longrightarrow> I s \<Longrightarrow> body k s = Inr s' \<Longrightarrow> I s'"
  shows "I s'"
  using assms
proof (induction ks arbitrary: s)
  case Nil
  then show ?case by simp
next
  case (Cons k ks)
  from Cons.prems(1) obtain s1 where s1: "body k s = Inr s1" "for_loop ks body s1 = Inr s'"
    by (auto split: sum.splits)
  have "I s1" using Cons.prems(3) [of k s s1] Cons.prems(2) s1(1) by simp
  moreover have "I t'" if "k' \<in> set ks" "I t" "body k' t = Inr t'" for k' t t'
    using Cons.prems(3) [of k' t t'] that by simp
  ultimately show ?case using Cons.IH [OF s1(2)] by blast
qed

lemma next_day_changes_day: "day (next_day d) \<noteq> day d"
  by (simp add: next_day_def days_in_month_def)

lemma rounds_to_next_day_date:
  assumes "rounds_to_next_day t"
  shows "the_date (hour_rounder t) = next_day (the_date t)"
proof -
  from assms have h: "hour (the_time t) = 23" and r: "hour (the_time (hour_rounder t)) = 0"
    by (simp_all add: rounds_to_next_day_def)
  show ?thesis
  proof (cases "30 \<le> minute (the_time t)")
    case True
    with h show ?thesis
      by (simp add: hour_rounder_def dt_add_seconds_def combine_def seconds_of_day_def Let_def)
  next
    case False
    with h have "hour (the_time (hour_rounder t)) = 23"
      by (simp add: hour_rounder_def dt_add_seconds_def combine_def seconds_of_day_def
            time_of_seconds_def Let_def)
    with r show ?thesis by simp
  qed
qed

lemma rounds_to_next_day_other_day:
  "rounds_to_next_day t \<Longrightarrow> day (the_date (hour_rounder t)) \<noteq> day (the_date t)"
  by (simp add: rounds_to_next_day_date next_day_changes_day)

lemma empty_buckets:
  "fold (\<lambda>hourtime m. m(hourtime \<mapsto> [])) hs m0 h = Some b \<Longrightarrow> b = [] \<or> m0 h = Some b"
proof (induction hs arbitrary: m0)
  case Nil
  then show ?case by simp
next
  case (Cons a hs)
  from Cons.prems have "fold (\<lambda>hourtime m. m(hourtime \<mapsto> [])) hs (m0(a \<mapsto> [])) h = Some b"
    by (simp only: fold_simps)
  from Cons.IH [OF this] show ?case by (auto split: if_splits)
qed

text \<open>Every index in a bucket is the index of a row whose rounded timestamp has the day of
  the month of the first row, and the key of the bucket is its rounded hour.\<close>

lemma bucket_members:
  assumes "get_hourtime_row_mapper satel_part = Inr m" "m h = Some bucket" "idx \<in> set bucket"
  shows "idx < length satel_part
     \<and> day (the_date (hour_rounder (satel_datetime (satel_part ! idx))))
         = day (the_date (satel_datetime (satel_part ! 0)))
     \<and> h = 100 * hour (the_time (hour_rounder (satel_datetime (satel_part ! idx))))"
proof -
  let ?ok = "\<lambda>i h. i < length satel_part
     \<and> day (the_date (hour_rounder (satel_datetime (satel_part ! i))))
         = day (the_date (satel_datetime (satel_part ! 0)))
     \<and> h = 100 * hour (the_time (hour_rounder (satel_datetime (satel_part ! i))))"
  let ?I = "\<lambda>m. \<forall>h b. m h = Some b \<longrightarrow> (\<forall>i\<in>set b. ?ok i h)"
  let ?m0 = "fold (\<lambda>hourtime m. m(hourtime \<mapsto> [])) hourtime_range Map.empty"
  let ?body = "\<lambda>(idx, r) m.
                let hour_roundered_dt = hour_rounder (satel_datetime r)
                in if day (the_date hour_roundered_dt) = day (the_date (satel_datetime (satel_part ! 0)))
                   then
                     let closest_time = 100 * hour (the_time hour_roundered_dt)
                     in case m closest_time of None \<Rightarrow> Inl KeyError
                        | Some bucket \<Rightarrow> Inr (m(closest_time \<mapsto> bucket @ [idx]))
                   else Inr m"
  from assms(1) have ne: "satel_part \<noteq> []"
    by (auto simp: get_hourtime_row_mapper_def py_index_def)
  then have first: "py_index satel_part 0 = Inr (satel_part ! 0)"
    by (simp add: py_index_def)
  from assms(1) have run: "for_loop (enumerate 0 satel_part) ?body ?m0 = Inr m"
    by (simp add: get_hourtime_row_mapper_def first Let_def)
  have init: "?I ?m0"
    using empty_buckets [of hourtime_range Map.empty] by fastforce
  have step: "?I m2" if k: "k \<in> set (enumerate 0 satel_part)" and I1: "?I m1"
      and b: "?body k m1 = Inr m2" for k m1 m2
  proof -
    obtain i r where kr: "k = (i, r)" by (cases k)
    with k have ir: "i < length satel_part" "r = satel_part ! i"
      by (auto simp: in_set_enumerate_eq)
    let ?c = "100 * hour (the_time (hour_rounder (satel_datetime (satel_part ! i))))"
    show ?thesis
    proof (cases "day (the_date (hour_rounder (satel_datetime (satel_part ! i))))
                    = day (the_date (satel_datetime (satel_part ! 0)))")
      case False
      with b have "m2 = m1" unfolding kr ir(2) by (simp add: Let_def)
      with I1 show ?thesis by simp
    next
      case True
      with b obtain old where old: "m1 ?c = Some old" "m2 = m1(?c \<mapsto> old @ [i])"
        unfolding kr ir(2) by (auto simp: Let_def split: option.splits)
      show ?thesis
      proof (intro allI impI ballI)
        fix h b' j
        assume hb: "m2 h = Some b'" and j: "j \<in> set b'"
        show "?ok j h"
        proof (cases "h = ?c")
          case False
          with hb old(2) have "m1 h = Some b'" by simp
          with I1 j show ?thesis by blast
        next
          case h: True
          with hb old(2) have b': "b' = old @ [i]" by simp
          show ?thesis
          proof (cases "j = i")
            case True
            then show ?thesis using ir(1) \<open>day (the_date (hour_rounder (satel_datetime (satel_part ! i))))
                    = day (the_date (satel_datetime (satel_part ! 0)))\<close> h by simp
          next
            case False
            with j b' have "j \<in> set old" by simp
            with I1 old(1) h show ?thesis by blast
          qed
        qed
      qed
    qed
  qed
  have "?I m"
    by (rule for_loop_invariant [where I = ?I, OF run init step])
  with assms(2,3) show ?thesis by blast
qed

lemma next_day_row_in_no_bucket:
  assumes "get_hourtime_row_mapper satel_part = Inr m"
    and "the_date (satel_datetime (satel_part ! idx)) = the_date (satel_datetime (satel_part ! 0))"
    and "rounds_to_next_day (satel_datetime (satel_part ! idx))"
    and "m h = Some bucket"
  shows "idx \<notin> set bucket"
proof
  assume "idx \<in> set bucket"
  from bucket_members [OF assms(1) assms(4) this]
  have "day (the_date (hour_rounder (satel_datetime (satel_part ! idx))))
         = day (the_date (satel_datetime (satel_part ! 0)))" by simp
  with rounds_to_next_day_other_day [OF assms(3)] assms(2) show False by simp
qed


lemma single_levels_row_other:
  assumes "single_levels_row E tc_dt hourtime grb_time name res arr lats lons k rows = Inr rows'"
    and "k \<noteq> idx"
  shows "length rows' = length rows \<and> rows' ! idx = rows ! idx"
  using assms
  by (auto simp: single_levels_row_def Let_def split: sum.splits prod.splits if_splits)

lemma pressure_levels_row_other:
  assumes "pressure_levels_row E lvls grb_level name res arr lats lons k rows = Inr rows'"
    and "k \<noteq> idx"
  shows "length rows' = length rows \<and> rows' ! idx = rows ! idx"
  using assms
  by (auto simp: pressure_levels_row_def Let_def split: sum.splits prod.splits if_splits)

lemma rows_loop_untouched:
  assumes "for_loop ks body rows = Inr rows'"
    and "\<And>k r r'. k \<in> set ks \<Longrightarrow> body k r = Inr r' \<Longrightarrow> length r' = length r \<and> r' ! idx = r ! idx"
  shows "length rows' = length rows \<and> rows' ! idx = rows ! idx"
proof -
  let ?I = "\<lambda>r. length r = length rows \<and> r ! idx = rows ! idx"
  have "?I rows'"
  proof (rule for_loop_invariant [where I = ?I, OF assms(1)])
    show "?I rows" by simp
  next
    fix k r r'
    assume "k \<in> set ks" "?I r" "body k r = Inr r'"
    then show "?I r'" using assms(2) [of k r r'] by simp
  qed
  then show ?thesis .
qed

lemma single_levels_grb_untouched:
  assumes "single_levels_grb E tc_dt area bucket hourtime grb_time g rows = Inr rows'"
    and "idx \<notin> set bucket"
  shows "length rows' = length rows \<and> rows' ! idx = rows ! idx"
proof -
  from assms(1) obtain name res arr lats lons where
    "for_loop bucket (single_levels_row E tc_dt hourtime grb_time name res arr lats lons) rows
       = Inr rows'"
    by (auto simp: single_levels_grb_def Let_def split: sum.splits prod.splits)
  then show ?thesis
  proof (rule rows_loop_untouched)
    fix k r r'
    assume "k \<in> set bucket"
      and "single_levels_row E tc_dt hourtime grb_time name res arr lats lons k r = Inr r'"
    with assms(2) show "length r' = length r \<and> r' ! idx = r ! idx"
      using single_levels_row_other [of E tc_dt hourtime grb_time name res arr lats lons k r r' idx]
      by auto
  qed
qed

lemma single_levels_hour_untouched:
  assumes "single_levels_hour E tc_dt area grbidx m hourtime (rows, c) = Inr (rows', c')"
    and "\<And>h b. m h = Some b \<Longrightarrow> idx \<notin> set b"
  shows "length rows' = length rows \<and> rows' ! idx = rows ! idx"
proof -
  from assms(1) obtain bucket where bucket: "m hourtime = Some bucket"
    by (auto simp: single_levels_hour_def split: option.splits)
  show ?thesis
  proof (cases "length bucket = 0")
    case True
    with assms(1) bucket show ?thesis by (simp add: single_levels_hour_def)
  next
    case False
    with assms(1) bucket obtain grb_time gs where
      "for_loop gs (single_levels_grb E tc_dt area bucket hourtime grb_time) rows = Inr rows'"
      by (auto simp: single_levels_hour_def split: sum.splits)
    then show ?thesis
      by (rule rows_loop_untouched) (rule single_levels_grb_untouched [OF _ assms(2) [OF bucket]])
  qed
qed

lemma single_levels_loop_untouched:
  assumes "single_levels_loop E tc_dt area grbidx m satel_part = Inr (rows, c)"
    and "\<And>h b. m h = Some b \<Longrightarrow> idx \<notin> set b"
  shows "length rows = length satel_part \<and> rows ! idx = satel_part ! idx"
proof -
  let ?I = "\<lambda>st. length (fst st) = length satel_part \<and> fst st ! idx = satel_part ! idx"
  from assms(1) have loop:
    "for_loop hourtime_range (single_levels_hour E tc_dt area grbidx m) (satel_part, False)
       = Inr (rows, c)"
    by (simp add: single_levels_loop_def)
  have "?I (rows, c)"
  proof (rule for_loop_invariant [where I = ?I, OF loop])
    show "?I (satel_part, False)" by simp
  next
    fix h st st'
    assume "h \<in> set hourtime_range" and I: "?I st"
      and b: "single_levels_hour E tc_dt area grbidx m h st = Inr st'"
    from single_levels_hour_untouched [of E tc_dt area grbidx m h "fst st" "snd st" "fst st'" "snd st'" idx]
      b assms(2) I
    show "?I st'" by simp
  qed
  then show ?thesis by simp
qed

lemma pressure_levels_grb_untouched:
  assumes "pressure_levels_grb E area bucket lvls g rows = Inr rows'"
    and "idx \<notin> set bucket"
  shows "length rows' = length rows \<and> rows' ! idx = rows ! idx"
proof -
  from assms(1) obtain lv name res arr lats lons where
    "for_loop bucket (pressure_levels_row E lvls lv name res arr lats lons) rows = Inr rows'"
    by (auto simp: pressure_levels_grb_def Let_def split: sum.splits prod.splits)
  then show ?thesis
  proof (rule rows_loop_untouched)
    fix k r r'
    assume "k \<in> set bucket"
      and "pressure_levels_row E lvls lv name res arr lats lons k r = Inr r'"
    with assms(2) show "length r' = length r \<and> r' ! idx = r ! idx"
      using pressure_levels_row_other [of E lvls lv name res arr lats lons k r r' idx]
      by auto
  qed
qed

lemma pressure_levels_hour_untouched:
  assumes "pressure_levels_hour E area grbidx m lvls hourtime (rows, c) = Inr (rows', c')"
    and "\<And>h b. m h = Some b \<Longrightarrow> idx \<notin> set b"
  shows "length rows' = length rows \<and> rows' ! idx = rows ! idx"
proof -
  from assms(1) obtain bucket where bucket: "m hourtime = Some bucket"
    by (auto simp: pressure_levels_hour_def split: option.splits)
  show ?thesis
  proof (cases "length bucket = 0")
    case True
    with assms(1) bucket show ?thesis by (simp add: pressure_levels_hour_def)
  next
    case False
    with assms(1) bucket obtain gs where
      "for_loop gs (pressure_levels_grb E area bucket lvls) rows = Inr rows'"
      by (auto simp: pressure_levels_hour_def split: sum.splits)
    then show ?thesis
      by (rule rows_loop_untouched) (rule pressure_levels_grb_untouched [OF _ assms(2) [OF bucket]])
  qed
qed

lemma pressure_levels_loop_untouched:
  assumes "pressure_levels_loop E area grbidx m lvls era5_step_1 = Inr (rows, c)"
    and "\<And>h b. m h = Some b \<Longrightarrow> idx \<notin> set b"
  shows "length rows = length era5_step_1 \<and> rows ! idx = era5_step_1 ! idx"
proof -
  let ?I = "\<lambda>st. length (fst st) = length era5_step_1 \<and> fst st ! idx = era5_step_1 ! idx"
  from assms(1) have loop:
    "for_loop hourtime_range (pressure_levels_hour E area grbidx m lvls) (era5_step_1, False)
       = Inr (rows, c)"
    by (simp add: pressure_levels_loop_def)
  have "?I (rows, c)"
  proof (rule for_loop_invariant [where I = ?I, OF loop])
    show "?I (era5_step_1, False)" by simp
  next
    fix h st st'
    assume "h \<in> set hourtime_range" and I: "?I st"
      and b: "pressure_levels_hour E area grbidx m lvls h st = Inr st'"
    from pressure_levels_hour_untouched [of E area grbidx m lvls h "fst st" "snd st" "fst st'" "snd st'" idx]
      b assms(2) I
    show "?I st'" by simp
  qed
  then show ?thesis by simp
qed

section \<open>Properties of the resampler\<close>

lemma np_mean_2x2: "np_mean [[a, b], [c, d]] = Finite ((a + b + c + d) / 4)"
  by (simp add: np_mean_def)

lemmas slice_defs = slice2_def py_slice_def

text \<open>
  C4 at a field larger than the square, with a resolution of 0.25. The field has three by
  three values and the corner lookup gives the square of the cells 0 to 1 on both axes,
  whose four values have the mean 6. The surface pass assigns 6. The pressure-level pass
  computes the same square but assigns \<^verbatim>\<open>data.mean()\<close>, the mean 5 of the whole field.
\<close>

theorem pressure_pass_takes_mean_of_whole_field:
  "slice2 (rev field_3x3) 0 (1 + 1) 0 (1 + 1) = [[7, 8], [4, 5]] \<and>
   np_mean [[7, 8], [4, 5]] = Finite 6 \<and>
   np_mean (rev field_3x3) = Finite 5 \<and>
   map_sum id (map (\<lambda>r. era5_vars r ''temperature''))
     (single_levels_row env_example (py_datetime 2015 7 1 12 0 0) 1200
        \<lparr>hour = 12, minute = 0, second = 0\<rparr> ''temperature'' 0.25
        (rev field_3x3) (rev lats_3x3) (rev lons_3x3) 0 [row_at 725])
     = Inr [Some (Finite 6)] \<and>
   map_sum id (map (\<lambda>r. era5_vars r ''temperature''))
     (pressure_levels_row env_example [1000] 1000 ''temperature'' 0.25
        (rev field_3x3) (rev lats_3x3) (rev lons_3x3) 0 [row_at 725])
     = Inr [Some (Finite 5)]"
  by (simp add: field_3x3_def slice_defs np_mean_def single_levels_row_def pressure_levels_row_def
        py_index_def env_example_def Let_def)


lemma row_at_simps:
  "satel_datetime (row_at m) = combine \<lparr>year = 2015, month = 7, day = 1\<rparr> (minute_time m)"
  "row_lat (row_at m) = 10.125" "row_lon (row_at m) = 145.125"
  by (simp_all add: row_at_def pixel_row_def py_datetime_def one_cell_def res_quarter)

lemma hourtime_range_eval:
  "hourtime_range = [0, 100, 200, 300, 400, 500, 600, 700, 800, 900, 1000, 1100, 1200, 1300,
     1400, 1500, 1600, 1700, 1800, 1900, 2000, 2100, 2200, 2300]"
  by code_simp

lemma evening_rounding:
  "hour_rounder (satel_datetime (row_at 1405)) = py_datetime 2015 7 1 23 0 0"
  "hour_rounder (satel_datetime (row_at 1420)) = py_datetime 2015 7 2 0 0 0"
  by (simp_all add: row_at_simps hour_rounder_def minute_time_def combine_def dt_add_seconds_def
        seconds_of_day_def time_of_seconds_def next_day_def days_in_month_def py_datetime_def)


lemma empty_mapper_apply:
  "fold (\<lambda>hourtime m. m(hourtime \<mapsto> [])) hs m0 h = (if h \<in> set hs then Some [] else m0 h)"
  by (induction hs arbitrary: m0) (simp_all del: fun_upd_apply, simp)

lemma evening_mapper_eval: "get_hourtime_row_mapper evening_batch = Inr evening_mapper"
proof -
  have in_range: "(2300 :: int) \<in> set hourtime_range"
    by (simp add: hourtime_range_eval)
  have days: "day (the_date (satel_datetime (row_at 1405))) = 1"
    by (simp add: row_at_simps combine_def)
  show ?thesis
    unfolding get_hourtime_row_mapper_def evening_batch_def evening_mapper_def
    by (simp add: py_index_def evening_rounding days Let_def py_datetime_def
          empty_mapper_apply in_range del: fun_upd_apply)
qed

section \<open>Records that round to the next calendar day\<close>

lemma kept_rows_same_day:
  assumes "r \<in> set (kept_rows C tc_id tc_dt lat1 lon1 mv wv)"
  shows "\<not> rounds_to_next_day (satel_datetime r) \<and> the_date (satel_datetime r) = the_date tc_dt"
proof -
  obtain ln xn pn where sh: "shape mv = (ln, xn, pn)" by (cases "shape mv")
  from assms obtain y x i where "is_kept C tc_id tc_dt mv wv y x i"
      "r = pixel_row C tc_id tc_dt lat1 lon1 mv wv y x i"
    by (auto simp: kept_rows_def sh)
  then show ?thesis
    by (simp add: is_kept_def pixel_row_def combine_def)
qed

lemma extractor_drops_next_day_rows:
  assumes "get_smap_part C tc_id tc_dt tc_lon tc_lat smap_file
             = Inr (Data_Hourtimes_Area d hourtimes area)"
    and "r \<in> set d"
  shows "\<not> rounds_to_next_day (satel_datetime r) \<and> the_date (satel_datetime r) = the_date tc_dt"
proof -
  from assms(1) obtain lat1 lon1 mv wv s where
    "scan_window C tc_id tc_dt lat1 lon1 mv wv = Inr s" "d = sc_data s"
    by (auto simp: get_smap_part_def Let_def split: if_splits sum.splits prod.splits)
  with scan_window_data [of C tc_id tc_dt lat1 lon1 mv wv s] assms(2)
  show ?thesis using kept_rows_same_day by simp
qed

lemma evening_mapper_apply:
  "evening_mapper h = (if h = 2300 then Some [0] else if h \<in> set hourtime_range then Some [] else None)"
  by (simp add: evening_mapper_def empty_mapper_apply)

lemma evening_hours_skipped:
  "h \<noteq> 2300 \<Longrightarrow> h \<in> set hourtime_range \<Longrightarrow>
   single_levels_hour E tc_dt area grbidx evening_mapper h (rows, c) = Inr (rows, c)"
  by (simp add: single_levels_hour_def evening_mapper_apply)

lemma evening_single_row:
  "single_levels_row env_example (py_datetime 2015 7 1 23 20 0) 2300
      \<lparr>hour = 23, minute = 0, second = 0\<rparr> ''mean_sea_level_pressure'' 0.25
      (rev field_3x3) (rev lats_3x3) (rev lons_3x3) 0 evening_batch
    = Inr [(row_at 1405)\<lparr>era5_datetime := Some (py_datetime 2015 7 1 23 0 0),
              satel_era5_diff_mins := Some 25,
              era5_vars := [''mean_sea_level_pressure'' \<mapsto> Finite 6]\<rparr>, row_at 1420]"
  by (simp add: single_levels_row_def py_index_def evening_batch_def env_example_def Let_def
        row_at_simps combine_def minute_time_def py_datetime_def field_3x3_def slice_defs np_mean_def)
     (simp add: row_at_def pixel_row_def)


lemma evening_2300:
  "single_levels_hour env_example (py_datetime 2015 7 1 23 20 0) (11, 144, 9, 146)
      (index_example ''mean_sea_level_pressure'' 0) evening_mapper 2300 (evening_batch, False)
    = Inr (evening_step_1, True)"
  using evening_single_row
  by (simp add: single_levels_hour_def evening_mapper_apply py_time_def index_example_def
        single_levels_grb_def grb_example_def env_example_def evening_step_1_def)

lemma evening_single_loop:
  "single_levels_loop env_example (py_datetime 2015 7 1 23 20 0) (11, 144, 9, 146)
      (index_example ''mean_sea_level_pressure'' 0) evening_mapper evening_batch
    = Inr (evening_step_1, True)"
  by (simp add: single_levels_loop_def hourtime_range_eval evening_hours_skipped evening_2300)


lemma evening_pressure_hours_skipped:
  "h \<noteq> 2300 \<Longrightarrow> h \<in> set hourtime_range \<Longrightarrow>
   pressure_levels_hour E area grbidx evening_mapper lvls h (rows, c) = Inr (rows, c)"
  by (simp add: pressure_levels_hour_def evening_mapper_apply)

lemma evening_pressure_row:
  "pressure_levels_row env_example [950, 950] 950 ''temperature'' 0.25
      (rev field_3x3) (rev lats_3x3) (rev lons_3x3) 0 evening_batch
    = Inr evening_step_2"
  by (simp add: pressure_levels_row_def py_index_def evening_batch_def env_example_def Let_def
        field_3x3_def np_mean_def evening_step_2_def)
     (simp add: row_at_def pixel_row_def)

lemma evening_pressure_2300:
  "pressure_levels_hour env_example (11, 144, 9, 146) (index_example ''temperature'' 950)
      evening_mapper [950, 950] 2300 (evening_batch, False)
    = Inr (evening_step_2, True)"
  using evening_pressure_row
  by (simp add: pressure_levels_hour_def evening_mapper_apply py_time_def index_example_def
        pressure_levels_grb_def grb_example_def env_example_def)

lemma evening_pressure_loop:
  "pressure_levels_loop env_example (11, 144, 9, 146) (index_example ''temperature'' 950)
      evening_mapper [950, 950] evening_batch
    = Inr (evening_step_2, True)"
  by (simp add: pressure_levels_loop_def hourtime_range_eval evening_pressure_hours_skipped
        evening_pressure_2300)


text \<open>
  C8. Take a batch of rows and a row of it, at index \<open>idx\<close>, whose timestamp is on the
  calendar day of the first row and rounds to the next day (hour 23, rounded hour 0). The
  row is in no bucket of the hour bucketer; the resampling loop of the surface pass and the
  one of the pressure-level pass leave it as it is, so neither assigns it a reanalysis
  value; and no extraction returns it, since \<^verbatim>\<open>get_smap_part\<close> drops such a row before
  it reaches a batch.
\<close>

theorem next_day_record_is_never_resampled:
  assumes "idx < length satel_part"
    and "the_date (satel_datetime (satel_part ! idx))
           = the_date (satel_datetime (satel_part ! 0))"
    and "rounds_to_next_day (satel_datetime (satel_part ! idx))"
    and "get_hourtime_row_mapper satel_part = Inr hourtime_row_mapper"
  shows "(\<forall>hourtime bucket. hourtime_row_mapper hourtime = Some bucket \<longrightarrow> idx \<notin> set bucket)
    \<and> (\<forall>rows c. single_levels_loop E tc_dt area grbidx hourtime_row_mapper satel_part
                    = Inr (rows, c) \<longrightarrow> rows ! idx = satel_part ! idx)
    \<and> (\<forall>rows c. pressure_levels_loop E area grbidx' hourtime_row_mapper lvls satel_part
                    = Inr (rows, c) \<longrightarrow> rows ! idx = satel_part ! idx)
    \<and> (\<forall>d hourtimes a. get_smap_part CONFIG tc_id tc_dt tc_lon tc_lat smap_file
                    = Inr (Data_Hourtimes_Area d hourtimes a)
                  \<longrightarrow> satel_part ! idx \<notin> set d)"
proof -
  have out: "idx \<notin> set bucket" if "hourtime_row_mapper hourtime = Some bucket"
    for hourtime bucket
    using next_day_row_in_no_bucket [OF assms(4) assms(2) assms(3) that] .
  have "rows ! idx = satel_part ! idx"
    if "single_levels_loop E tc_dt area grbidx hourtime_row_mapper satel_part = Inr (rows, c)"
    for rows c
    using single_levels_loop_untouched [OF that out] by simp
  moreover have "rows ! idx = satel_part ! idx"
    if "pressure_levels_loop E area grbidx' hourtime_row_mapper lvls satel_part = Inr (rows, c)"
    for rows c
    using pressure_levels_loop_untouched [OF that out] by simp
  moreover have "satel_part ! idx \<notin> set d"
    if "get_smap_part CONFIG tc_id tc_dt tc_lon tc_lat smap_file
          = Inr (Data_Hourtimes_Area d hourtimes a)" for d hourtimes a
    using extractor_drops_next_day_rows [OF that] assms(3) by blast
  ultimately show ?thesis using out by blast
qed


theorem next_day_record_is_never_resampled_witness:
  "(1::nat) < length evening_batch \<and>
   the_date (satel_datetime (evening_batch ! 1)) = the_date (satel_datetime (evening_batch ! 0)) \<and>
   rounds_to_next_day (satel_datetime (evening_batch ! 1)) \<and>
   get_hourtime_row_mapper evening_batch = Inr evening_mapper \<and>
   evening_mapper 2300 = Some [0] \<and> (1::nat) \<notin> set [0] \<and>
   single_levels_loop env_example (py_datetime 2015 7 1 23 20 0) (11, 144, 9, 146)
      (index_example ''mean_sea_level_pressure'' 0) evening_mapper evening_batch
     = Inr (evening_step_1, True) \<and>
   evening_step_1 ! 1 = evening_batch ! 1 \<and>
   pressure_levels_loop env_example (11, 144, 9, 146) (index_example ''temperature'' 950)
      evening_mapper [950, 950] evening_batch
     = Inr (evening_step_2, True) \<and>
   evening_step_2 ! 1 = evening_batch ! 1 \<and>
   get_smap_part config_quarter (Some ''2015183N13130'') (py_datetime 2015 7 1 23 20 0)
       150.125 15.125 (file_of late_minutes late_winds)
     = Inr (Data_Hourtimes_Area
         [pixel_row config_quarter (Some ''2015183N13130'') (py_datetime 2015 7 1 23 20 0)
            10.125 145.125 late_minutes late_winds 0 0 0]
         [23] (10.625, 144.625, 9.625, 145.875)) \<and>
   evening_batch ! 1 \<notin> set [pixel_row config_quarter (Some ''2015183N13130'')
            (py_datetime 2015 7 1 23 20 0) 10.125 145.125 late_minutes late_winds 0 0 0]"
proof -
  have h1: "(1::nat) < length evening_batch"
    by (simp add: evening_batch_def)
  have h2: "the_date (satel_datetime (evening_batch ! 1))
              = the_date (satel_datetime (evening_batch ! 0))"
    by (simp add: evening_batch_def row_at_simps combine_def)
  have h3: "rounds_to_next_day (satel_datetime (evening_batch ! 1))"
    by (simp add: rounds_to_next_day_def evening_batch_def evening_rounding py_datetime_def)
       (simp add: row_at_simps combine_def minute_time_def)
  have m: "evening_mapper 2300 = Some [0]"
    by (simp add: evening_mapper_apply)
  note T = next_day_record_is_never_resampled [OF h1 h2 h3 evening_mapper_eval,
      of env_example "py_datetime 2015 7 1 23 20 0" "(11, 144, 9, 146)"
         "index_example ''mean_sea_level_pressure'' 0" "index_example ''temperature'' 950"
         "[950, 950]" config_quarter "Some ''2015183N13130''" "150.125" "15.125"
         "file_of late_minutes late_winds"]
  from T m have a: "(1::nat) \<notin> set [0]" by blast
  from T evening_single_loop have b: "evening_step_1 ! 1 = evening_batch ! 1" by blast
  from T evening_pressure_loop have c: "evening_step_2 ! 1 = evening_batch ! 1" by blast
  from T late_part have d: "evening_batch ! 1 \<notin> set [pixel_row config_quarter
      (Some ''2015183N13130'') (py_datetime 2015 7 1 23 20 0) 10.125 145.125
      late_minutes late_winds 0 0 0]" by blast
  show ?thesis
    using h1 h2 h3 evening_mapper_eval m a b c d evening_single_loop evening_pressure_loop
      late_part
    by (intro conjI)
qed

section \<open>Properties of the pipeline\<close>

lemma for_each_invariant:
  assumes "I w" and "\<And>k w. k \<in> set ks \<Longrightarrow> I w \<Longrightarrow> I (snd (body k w))"
  shows "I (snd (for_each ks body w))"
  using assms
proof (induction ks arbitrary: w)
  case Nil
  then show ?case by simp
next
  case (Cons k ks)
  obtain r w1 where b: "body k w = (r, w1)" by (cases "body k w")
  have w1: "I w1" using Cons.prems(2) [of k w] Cons.prems(1) b by simp
  show ?case
  proof (cases r)
    case None
    have "I (snd (for_each ks body w1))"
      using Cons.IH [OF w1] Cons.prems(2) by simp
    with b None show ?thesis by simp
  next
    case (Some sg)
    with b w1 show ?thesis by simp
  qed
qed

lemma snd_try_except_exit: "snd (try_except_exit body w) = snd (body w)"
  by (auto simp: try_except_exit_def split: prod.splits option.splits signal.splits)

lemma single_levels_row_length:
  "single_levels_row E tc_dt hourtime grb_time name res arr lats lons k rows = Inr rows'
   \<Longrightarrow> length rows' = length rows"
  by (auto simp: single_levels_row_def Let_def split: sum.splits prod.splits if_splits)

lemma rows_loop_length:
  assumes "for_loop ks body rows = Inr rows'"
    and "\<And>k r r'. k \<in> set ks \<Longrightarrow> body k r = Inr r' \<Longrightarrow> length r' = length r"
  shows "length rows' = length rows"
proof -
  let ?I = "\<lambda>r. length r = length rows"
  have "?I rows'"
  proof (rule for_loop_invariant [where I = ?I, OF assms(1)])
    show "?I rows" by simp
  next
    fix k r r'
    assume "k \<in> set ks" "?I r" "body k r = Inr r'"
    then show "?I r'" using assms(2) [of k r r'] by simp
  qed
  then show ?thesis .
qed

lemma single_levels_grb_length:
  assumes "single_levels_grb E tc_dt area bucket hourtime grb_time g rows = Inr rows'"
  shows "length rows' = length rows"
proof -
  from assms obtain name res arr lats lons where
    "for_loop bucket (single_levels_row E tc_dt hourtime grb_time name res arr lats lons) rows
       = Inr rows'"
    by (auto simp: single_levels_grb_def Let_def split: sum.splits prod.splits)
  then show ?thesis
    by (rule rows_loop_length) (rule single_levels_row_length)
qed

lemma single_levels_hour_length:
  assumes "single_levels_hour E tc_dt area grbidx m hourtime (rows, c) = Inr (rows', c')"
  shows "length rows' = length rows"
proof -
  from assms obtain bucket where bucket: "m hourtime = Some bucket"
    by (auto simp: single_levels_hour_def split: option.splits)
  show ?thesis
  proof (cases "length bucket = 0")
    case True
    with assms bucket show ?thesis by (simp add: single_levels_hour_def)
  next
    case False
    with assms bucket obtain grb_time gs where
      "for_loop gs (single_levels_grb E tc_dt area bucket hourtime grb_time) rows = Inr rows'"
      by (auto simp: single_levels_hour_def split: sum.splits)
    then show ?thesis
      by (rule rows_loop_length) (rule single_levels_grb_length)
  qed
qed

lemma single_levels_loop_length:
  assumes "single_levels_loop E tc_dt area grbidx m satel_part = Inr (rows, c)"
  shows "length rows = length satel_part"
proof -
  let ?I = "\<lambda>st. length (fst st) = length satel_part"
  from assms have loop:
    "for_loop hourtime_range (single_levels_hour E tc_dt area grbidx m) (satel_part, False)
       = Inr (rows, c)"
    by (simp add: single_levels_loop_def)
  have "?I (rows, c)"
  proof (rule for_loop_invariant [where I = ?I, OF loop])
    show "?I (satel_part, False)" by simp
  next
    fix h st st'
    assume "h \<in> set hourtime_range" and I: "?I st"
      and b: "single_levels_hour E tc_dt area grbidx m h st = Inr st'"
    from single_levels_hour_length [of E tc_dt area grbidx m h "fst st" "snd st" "fst st'" "snd st'"]
      b I
    show "?I st'" by simp
  qed
  then show ?thesis by simp
qed

lemma derive_loop_length:
  assumes "for_loop ks
             (\<lambda>k (rows', lvls).
                case derive_row E CONFIG (rows' ! k) of Inl e \<Rightarrow> Inl (Exception e)
                | Inr (r, nearest) \<Rightarrow> Inr (rows'[k := r], lvls @ [nearest]))
             (rows, ls) = Inr (rows', ls')"
  shows "length rows' = length rows"
proof -
  let ?I = "\<lambda>st :: row list \<times> real list. length (fst st) = length rows"
  have "?I (rows', ls')"
  proof (rule for_loop_invariant [where I = ?I, OF assms])
    show "?I (rows, ls)" by simp
  next
    fix k and st st' :: "row list \<times> real list"
    assume "k \<in> set ks" "?I st"
      "(case st of (rows', lvls) \<Rightarrow>
                case derive_row E CONFIG (rows' ! k) of Inl e \<Rightarrow> Inl (Exception e)
                | Inr (r, nearest) \<Rightarrow> Inr (rows'[k := r], lvls @ [nearest])) = Inr st'"
    then show "?I st'"
      by (auto split: prod.splits sum.splits)
  qed
  then show ?thesis by simp
qed

lemma add_era5_single_levels_world:
  "snd (add_era5_single_levels E CONFIG grbidx tc_dt satel_part hourtimes area w)
     = w @ [Call_get_hourtime_row_mapper satel_part]"
  by (auto simp: add_era5_single_levels_def Let_def split: sum.splits prod.splits)

lemma add_era5_single_levels_length:
  assumes "add_era5_single_levels E CONFIG grbidx tc_dt satel_part hourtimes area w
             = (Inr (era5_step_1, lvls), w1)"
  shows "length era5_step_1 = length satel_part"
proof -
  from assms obtain m rows c where
    loop: "single_levels_loop E tc_dt area grbidx m satel_part = Inr (rows, c)"
    and derive: "for_loop [0..<length rows]
             (\<lambda>k (rows', lvls).
                case derive_row E CONFIG (rows' ! k) of Inl e \<Rightarrow> Inl (Exception e)
                | Inr (r, nearest) \<Rightarrow> Inr (rows'[k := r], lvls @ [nearest]))
             (rows, []) = Inr (era5_step_1, lvls)"
    by (auto simp: add_era5_single_levels_def Let_def split: sum.splits prod.splits)
  from derive_loop_length [OF derive] single_levels_loop_length [OF loop]
  show ?thesis by simp
qed

lemma add_era5_pressure_levels_world:
  "snd (add_era5_pressure_levels E grbidx tc_dt era5_step_1 hourtimes area lvls w)
     = w @ [Call_get_hourtime_row_mapper era5_step_1]"
  by (auto simp: add_era5_pressure_levels_def Let_def split: sum.splits prod.splits)


lemma extract_era5_world:
  assumes "satel_part \<noteq> []"
  shows "\<exists>evs. snd (extract_era5 E CONFIG tc_id tc_dt satel_part hourtimes area w) = w @ evs
           \<and> Call_get_hourtime_row_mapper [] \<notin> set evs"
proof (cases "download_single_levels_vars E tc_dt hourtimes area tc_id")
  case (Inl e)
  then have "snd (extract_era5 E CONFIG tc_id tc_dt satel_part hourtimes area w) = w @ []"
    by (simp add: extract_era5_def extract_era5_single_levels_def)
  then show ?thesis by (intro exI [of _ "[]"]) simp
next
  case (Inr file1)
  let ?w1 = "w @ [Call_get_hourtime_row_mapper satel_part]"
  obtain r1 w1 where r1: "add_era5_single_levels E CONFIG file1 tc_dt satel_part hourtimes area w
                            = (r1, w1)"
    by (cases "add_era5_single_levels E CONFIG file1 tc_dt satel_part hourtimes area w")
  with add_era5_single_levels_world [of E CONFIG file1 tc_dt satel_part hourtimes area w]
  have w1: "w1 = ?w1" by simp
  show ?thesis
  proof (cases r1)
    case (Inl sg)
    with Inr r1 w1
    have "snd (extract_era5 E CONFIG tc_id tc_dt satel_part hourtimes area w)
            = w @ [Call_get_hourtime_row_mapper satel_part]"
      by (simp add: extract_era5_def extract_era5_single_levels_def)
    with assms show ?thesis by (intro exI [of _ "[Call_get_hourtime_row_mapper satel_part]"]) simp
  next
    case step1: (Inr p)
    obtain era5_step_1 lvls where p: "p = (era5_step_1, lvls)" by (cases p)
    from add_era5_single_levels_length [of E CONFIG file1 tc_dt satel_part hourtimes area w
        era5_step_1 lvls w1] r1 step1 p assms
    have ne: "era5_step_1 \<noteq> []" by auto
    show ?thesis
    proof (cases "download_pressure_levels_vars E tc_dt hourtimes area (sort (remdups lvls)) tc_id")
      case (Inl e)
      with Inr r1 w1 step1 p
      have "snd (extract_era5 E CONFIG tc_id tc_dt satel_part hourtimes area w)
              = w @ [Call_get_hourtime_row_mapper satel_part]"
        by (simp add: extract_era5_def extract_era5_single_levels_def
              extract_era5_pressure_levels_def)
      with assms show ?thesis
        by (intro exI [of _ "[Call_get_hourtime_row_mapper satel_part]"]) simp
    next
      case file2: (Inr file2)
      obtain r2 w2 where r2: "add_era5_pressure_levels E file2 tc_dt era5_step_1 hourtimes area
                                lvls ?w1 = (r2, w2)"
        by (cases "add_era5_pressure_levels E file2 tc_dt era5_step_1 hourtimes area lvls ?w1")
      with add_era5_pressure_levels_world [of E file2 tc_dt era5_step_1 hourtimes area lvls ?w1]
      have w2: "w2 = ?w1 @ [Call_get_hourtime_row_mapper era5_step_1]" by simp
      from Inr r1 w1 step1 p file2 r2 w2
      have "snd (extract_era5 E CONFIG tc_id tc_dt satel_part hourtimes area w)
              = w @ [Call_get_hourtime_row_mapper satel_part,
                     Call_get_hourtime_row_mapper era5_step_1]"
        by (cases r2) (simp_all add: extract_era5_def extract_era5_single_levels_def
              extract_era5_pressure_levels_def)
      with assms ne show ?thesis
        by (intro exI [of _ "[Call_get_hourtime_row_mapper satel_part,
                              Call_get_hourtime_row_mapper era5_step_1]"]) simp
    qed
  qed
qed

lemma extract_detail_world:
  "\<exists>evs. snd (extract_detail E CONFIG tc_id tc_dt tc_lon tc_lat w) = w @ evs
          \<and> Call_get_hourtime_row_mapper [] \<notin> set evs"
proof (cases "create_smap_era5_table E tc_dt")
  case (Some e)
  then have "snd (extract_detail E CONFIG tc_id tc_dt tc_lon tc_lat w) = w @ []"
    by (simp add: extract_detail_def)
  then show ?thesis by (intro exI [of _ "[]"]) simp
next
  case None
  show ?thesis
  proof (cases "extract_smap (smap_download E) CONFIG tc_id tc_dt tc_lon tc_lat")
    case (Inl e)
    with None have "snd (extract_detail E CONFIG tc_id tc_dt tc_lon tc_lat w) = w @ []"
      by (simp add: extract_detail_def)
    then show ?thesis by (intro exI [of _ "[]"]) simp
  next
    case (Inr p)
    obtain satel_part hourtimes area where p: "p = (satel_part, hourtimes, area)"
      by (cases p)
    show ?thesis
    proof (cases "length satel_part = 0")
      case True
      with None Inr p have "snd (extract_detail E CONFIG tc_id tc_dt tc_lon tc_lat w) = w @ []"
        by (simp add: extract_detail_def)
      then show ?thesis by (intro exI [of _ "[]"]) simp
    next
      case False
      then have "satel_part \<noteq> []" by simp
      from extract_era5_world [OF this, of E CONFIG tc_id tc_dt hourtimes area w]
      obtain evs where evs:
        "snd (extract_era5 E CONFIG tc_id tc_dt satel_part hourtimes area w) = w @ evs"
        "Call_get_hourtime_row_mapper [] \<notin> set evs" by blast
      obtain r w1 where r: "extract_era5 E CONFIG tc_id tc_dt satel_part hourtimes area w = (r, w1)"
        by (cases "extract_era5 E CONFIG tc_id tc_dt satel_part hourtimes area w")
      with evs(1) have w1: "w1 = w @ evs" by simp
      show ?thesis
      proof (cases r)
        case (Inl sg)
        with None Inr p False r w1
        have "snd (extract_detail E CONFIG tc_id tc_dt tc_lon tc_lat w) = w @ evs"
          by (simp add: extract_detail_def)
        with evs(2) show ?thesis by blast
      next
        case step2: (Inr era5_step_2)
        with None Inr p False r w1
        have "snd (extract_detail E CONFIG tc_id tc_dt tc_lon tc_lat w)
                = w @ (evs @ [Bulk_insert era5_step_2])"
          by (simp add: extract_detail_def split: option.splits)
        moreover have "Call_get_hourtime_row_mapper [] \<notin> set (evs @ [Bulk_insert era5_step_2])"
          using evs(2) by simp
        ultimately show ?thesis by blast
      qed
    qed
  qed
qed

lemma extract_detail_no_empty_call:
  "no_empty_call w \<Longrightarrow> no_empty_call (snd (extract_detail E CONFIG tc_id tc_dt tc_lon tc_lat w))"
  using extract_detail_world [of E CONFIG tc_id tc_dt tc_lon tc_lat w]
  by (auto simp: no_empty_call_def)

lemma extract_between_no_empty_call:
  assumes "no_empty_call w"
  shows "no_empty_call (snd (extract_between_two_tc_records (extract_detail E CONFIG) tc next_tc w))"
proof -
  let ?delta = "dt_sub (date_time next_tc) (date_time tc)"
  show ?thesis
  proof (cases "days ?delta \<noteq> 0")
    case True
    then show ?thesis
      using extract_detail_no_empty_call [OF assms]
      by (simp add: extract_between_two_tc_records_def Let_def)
  next
    case False
    show ?thesis
    proof (cases "seconds ?delta div 3600 = 0")
      case True
      with False assms show ?thesis
        by (simp add: extract_between_two_tc_records_def Let_def split: prod.splits)
    next
      case hours: False
      have "no_empty_call (snd (for_each ks (\<lambda>h. extract_detail E CONFIG (a h) (b h) (c h) (d h)) w))"
        for ks :: "nat list" and a b c d
        by (rule for_each_invariant [where I = no_empty_call, OF assms])
           (rule extract_detail_no_empty_call)
      with False hours show ?thesis
        by (simp add: extract_between_two_tc_records_def Let_def split: prod.splits)
    qed
  qed
qed

lemma extract_fix_no_empty_call:
  "no_empty_call w \<Longrightarrow>
   no_empty_call (snd (extract_fix (extract_detail E CONFIG) E tc_query idx tc w))"
  by (simp add: extract_fix_def Let_def extract_between_no_empty_call
        extract_detail_no_empty_call)

text \<open>
  C10. In a run of the matcher over any list of fixes, with any collaborators, every call of
  \<^verbatim>\<open>get_hourtime_row_mapper\<close> gets a list that is not empty: \<^verbatim>\<open>extract_detail\<close>
  returns before \<^verbatim>\<open>extract_era5\<close> when the extraction gives no rows, the surface pass
  calls the bucketer with the rows extracted, and the pressure-level pass calls it with the
  rows of the surface pass, which are as many. So \<^verbatim>\<open>satel_part[0]\<close> is always there.
\<close>

theorem bucket_builder_never_gets_empty_list:
  "Call_get_hourtime_row_mapper [] \<notin> set (snd (run_match E CONFIG tc_query []))"
proof -
  have "no_empty_call (snd (for_each (enumerate 0 tc_query)
          (\<lambda>(idx, tc). try_except_exit (extract_fix (extract_detail E CONFIG) E tc_query idx tc))
          []))"
  proof (rule for_each_invariant [where I = no_empty_call])
    show "no_empty_call []" by (simp add: no_empty_call_def)
  next
    fix k :: "nat \<times> tc_record" and w :: world
    assume "no_empty_call w"
    then show "no_empty_call (snd ((case k of (idx, tc) \<Rightarrow>
        try_except_exit (extract_fix (extract_detail E CONFIG) E tc_query idx tc)) w))"
      by (cases k) (simp add: snd_try_except_exit extract_fix_no_empty_call)
  qed
  then show ?thesis
    by (simp add: run_match_def extract_tracks_def no_empty_call_def)
qed


subsection \<open>A failure while a fix is processed\<close>

text \<open>The run for the fix at noon, step by step: the extraction keeps its pixel, both
  resampling loops fill the row at 12:00, and the row is inserted.\<close>

lemma noon_scan:
  "scan_window config_quarter (Some ''2015183N13130'') (py_datetime 2015 7 1 12 0 0)
      10.125 145.125 (one_cell 725 (- 9999)) (one_cell 12 12)
     = Inr \<lparr>sc_data = [row_noon],
             sc_north = 10.125, sc_west = 145.125, sc_south = 10.125, sc_east = 145.125,
             sc_hourtimes = [12]\<rparr>"
  by (simp add: scan_eval one_cell_def config_quarter_def py_datetime_def row_noon_def
        pixel_row_def minute_time_def)

lemma env_gap_download:
  "smap_download env_gap (py_datetime 2015 7 1 12 0 0)
     = Inr (file_of (one_cell 725 (- 9999)) (one_cell 12 12))"
  "smap_download env_gap (py_datetime 2015 6 30 6 0 0) = Inl (Failure ''no satellite file'')"
  "smap_download env_gap (py_datetime 2015 7 2 0 0 0) = Inl (Failure ''no satellite file'')"
  by (simp_all add: env_gap_def env_example_def py_datetime_def)

lemma noon_smap:
  "extract_smap (smap_download env_gap) config_quarter (Some ''2015183N13130'')
      (py_datetime 2015 7 1 12 0 0) 150.125 15.125
     = Inr ([row_noon], [12], noon_area)"
  using noon_scan square_at_15N
  by (simp add: extract_smap_def env_gap_download get_smap_part_def file_of_def noon_area_def)

lemma row_noon_simps:
  "satel_datetime row_noon = py_datetime 2015 7 1 12 5 0"
  "row_lat row_noon = 10.125" "row_lon row_noon = 145.125" "smap_windspd row_noon = 12"
  "era5_vars row_noon = Map.empty"
  by (simp_all add: row_noon_def pixel_row_def py_datetime_def one_cell_def res_quarter
        combine_def minute_time_def)

lemma noon_rounding: "hour_rounder (py_datetime 2015 7 1 12 5 0) = py_datetime 2015 7 1 12 0 0"
  by (simp add: hour_rounder_def combine_def dt_add_seconds_def seconds_of_day_def
        time_of_seconds_def py_datetime_def)

lemma noon_mapper_apply:
  "noon_mapper h = (if h = 1200 then Some [0] else if h \<in> set hourtime_range then Some [] else None)"
  by (simp add: noon_mapper_def empty_mapper_apply)

lemma noon_mapper_eval:
  assumes "satel_datetime r = py_datetime 2015 7 1 12 5 0"
  shows "get_hourtime_row_mapper [r] = Inr noon_mapper"
proof -
  have in_range: "(1200 :: int) \<in> set hourtime_range"
    by (simp add: hourtime_range_eval)
  have f: "day (the_date (py_datetime 2015 7 1 12 5 0)) = 1"
    "day (the_date (py_datetime 2015 7 1 12 0 0)) = 1"
    "hour (the_time (py_datetime 2015 7 1 12 0 0)) = 12"
    by (simp_all add: py_datetime_def)
  show ?thesis
    unfolding get_hourtime_row_mapper_def noon_mapper_def
    by (simp add: py_index_def assms noon_rounding Let_def f
          empty_mapper_apply in_range del: fun_upd_apply)
qed


lemma noon_single_hours_skipped:
  "h \<noteq> 1200 \<Longrightarrow> h \<in> set hourtime_range \<Longrightarrow>
   single_levels_hour E tc_dt area grbidx noon_mapper h (rows, c) = Inr (rows, c)"
  by (simp add: single_levels_hour_def noon_mapper_apply)

lemma noon_pressure_hours_skipped:
  "h \<noteq> 1200 \<Longrightarrow> h \<in> set hourtime_range \<Longrightarrow>
   pressure_levels_hour E area grbidx noon_mapper lvls h (rows, c) = Inr (rows, c)"
  by (simp add: pressure_levels_hour_def noon_mapper_apply)

lemma noon_single_row:
  "single_levels_row env_gap (py_datetime 2015 7 1 12 0 0) 1200
      \<lparr>hour = 12, minute = 0, second = 0\<rparr> ''mean_sea_level_pressure'' 0.25
      (rev field_3x3) (rev lats_3x3) (rev lons_3x3) 0 [row_noon]
    = Inr [noon_resampled]"
  by (simp add: single_levels_row_def py_index_def env_gap_def env_example_def Let_def noon_resampled_def
        row_noon_simps combine_def py_datetime_def field_3x3_def slice_defs np_mean_def)

lemma noon_single_1200:
  "single_levels_hour env_gap (py_datetime 2015 7 1 12 0 0) noon_area
      (index_example ''mean_sea_level_pressure'' 0) noon_mapper 1200 ([row_noon], False)
    = Inr ([noon_resampled], True)"
  using noon_single_row
  by (simp add: single_levels_hour_def noon_mapper_apply py_time_def index_example_def
        single_levels_grb_def grb_example_def env_gap_def env_example_def noon_area_def)

lemma noon_single_loop:
  "single_levels_loop env_gap (py_datetime 2015 7 1 12 0 0) noon_area
      (index_example ''mean_sea_level_pressure'' 0) noon_mapper [row_noon]
    = Inr ([noon_resampled], True)"
  by (simp add: single_levels_loop_def hourtime_range_eval noon_single_hours_skipped
        noon_single_1200)

lemma noon_derive:
  "derive_row env_gap config_quarter noon_resampled = Inr (noon_step_1, 950)"
  by (simp add: derive_row_def noon_resampled_def noon_step_1_def nearest_pres_lvl_def
        get_nearest_element_and_index_def config_quarter_def env_gap_def env_example_def row_noon_simps)

lemma noon_add_single:
  "add_era5_single_levels env_gap config_quarter
      (index_example ''mean_sea_level_pressure'' 0) (py_datetime 2015 7 1 12 0 0)
      [row_noon] [12] noon_area w
    = (Inr ([noon_step_1], [950]), w @ [Call_get_hourtime_row_mapper [row_noon]])"
  by (simp add: add_era5_single_levels_def noon_mapper_eval row_noon_simps noon_single_loop
        noon_derive)


lemma noon_step_1_simps:
  "satel_datetime noon_step_1 = py_datetime 2015 7 1 12 5 0"
  "row_lat noon_step_1 = 10.125" "row_lon noon_step_1 = 145.125"
  "era5_vars noon_step_1 = [''mean_sea_level_pressure'' \<mapsto> Finite 6]"
  by (simp_all add: noon_step_1_def noon_resampled_def row_noon_simps)

lemma noon_pressure_row:
  "pressure_levels_row env_gap [950] 950 ''temperature'' 0.25
      (rev field_3x3) (rev lats_3x3) (rev lons_3x3) 0 [noon_step_1]
    = Inr [noon_step_2]"
  by (simp add: pressure_levels_row_def py_index_def env_gap_def env_example_def Let_def noon_step_2_def
        noon_step_1_simps field_3x3_def np_mean_def)

lemma noon_pressure_1200:
  "pressure_levels_hour env_gap noon_area (index_example ''temperature'' 950)
      noon_mapper [950] 1200 ([noon_step_1], False)
    = Inr ([noon_step_2], True)"
  using noon_pressure_row
  by (simp add: pressure_levels_hour_def noon_mapper_apply py_time_def index_example_def
        pressure_levels_grb_def grb_example_def env_gap_def env_example_def noon_area_def)

lemma noon_pressure_loop:
  "pressure_levels_loop env_gap noon_area (index_example ''temperature'' 950)
      noon_mapper [950] [noon_step_1]
    = Inr ([noon_step_2], True)"
  by (simp add: pressure_levels_loop_def hourtime_range_eval noon_pressure_hours_skipped
        noon_pressure_1200)

lemma noon_add_pressure:
  "add_era5_pressure_levels env_gap (index_example ''temperature'' 950)
      (py_datetime 2015 7 1 12 0 0) [noon_step_1] [12] noon_area [950] w
    = (Inr [noon_step_2], w @ [Call_get_hourtime_row_mapper [noon_step_1]])"
  by (simp add: add_era5_pressure_levels_def noon_mapper_eval noon_step_1_simps
        noon_pressure_loop)

lemma env_gap_indexes:
  "download_single_levels_vars env_gap dt hs a i
     = Inr (index_example ''mean_sea_level_pressure'' 0)"
  "download_pressure_levels_vars env_gap dt hs a ls i
     = Inr (index_example ''temperature'' 950)"
  by (simp_all add: env_gap_def env_example_def index_example_def fun_eq_iff)

lemma noon_era5:
  "extract_era5 env_gap config_quarter (Some ''2015183N13130'')
      (py_datetime 2015 7 1 12 0 0) [row_noon] [12] noon_area w
    = (Inr [noon_step_2],
       w @ [Call_get_hourtime_row_mapper [row_noon], Call_get_hourtime_row_mapper [noon_step_1]])"
  by (simp add: extract_era5_def extract_era5_single_levels_def extract_era5_pressure_levels_def
        env_gap_indexes noon_add_single noon_add_pressure)

lemma noon_detail:
  "extract_detail env_gap config_quarter (Some ''2015183N13130'')
      (py_datetime 2015 7 1 12 0 0) 150.125 15.125 w
    = (None, w @ [Call_get_hourtime_row_mapper [row_noon],
                  Call_get_hourtime_row_mapper [noon_step_1], Bulk_insert [noon_step_2]])"
  using noon_smap noon_era5
  by (simp add: extract_detail_def)
     (simp add: env_gap_def env_example_def)

lemma noon_run:
  "run_match env_gap config_quarter [fix_noon] []
    = (None, [Call_get_hourtime_row_mapper [row_noon],
              Call_get_hourtime_row_mapper [noon_step_1], Bulk_insert [noon_step_2]])"
  using noon_detail [of "[]"]
  by (simp add: run_match_def extract_tracks_def enumerate_simps try_except_exit_def
        extract_fix_def fix_noon_def Let_def)
     (simp add: env_gap_def env_example_def)


text \<open>The loop over the fixes stops at the first body that raises, and the handler of
  \<^verbatim>\<open>extract\<close> turns what was raised into the exit of the process.\<close>

lemma for_each_append:
  "for_each (xs @ ys) body w =
     (case for_each xs body w of
        (None, w') \<Rightarrow> for_each ys body w'
      | (Some s, w') \<Rightarrow> (Some s, w'))"
  by (induction xs arbitrary: w) (auto split: prod.splits option.splits)

lemma try_except_exit_signal:
  "body w = (Some sg, w') \<Longrightarrow> try_except_exit body w = (Some (exit_on_exception sg), w')"
  by (cases sg) (simp_all add: try_except_exit_def)

lemma enumerate_split:
  assumes "idx < length xs"
  shows "enumerate 0 xs
           = take idx (enumerate 0 xs) @ (idx, xs ! idx) # drop (Suc idx) (enumerate 0 xs)"
proof -
  have "idx < length (enumerate 0 xs)" using assms by simp
  hence "enumerate 0 xs
           = take idx (enumerate 0 xs) @ (enumerate 0 xs ! idx) # drop (Suc idx) (enumerate 0 xs)"
    by (simp add: id_take_nth_drop [symmetric])
  moreover have "enumerate 0 xs ! idx = (idx, xs ! idx)"
    using assms by (simp add: nth_enumerate_eq)
  ultimately show ?thesis by simp
qed

lemma provider_failure_is_raised:
  "create_smap_era5_table E tc_dt = None \<Longrightarrow> smap_download E tc_dt = Inl e \<Longrightarrow>
   extract_detail E CONFIG tc_id tc_dt tc_lon tc_lat w = (Some (Exception e), w)"
  by (simp add: extract_detail_def extract_smap_def)

lemma grid_read_failure_is_raised:
  "create_smap_era5_table E tc_dt = None \<Longrightarrow> smap_download E tc_dt = Inr f \<Longrightarrow>
   get_square_around_tc CONFIG tc_lon tc_lat
     = Inr (True, lat1_idx, lat2_idx, lon1_idx, lon2_idx, lat1, lon1) \<Longrightarrow>
   f lat1_idx (lat2_idx + 1) lon1_idx (lon2_idx + 1) = Inl e \<Longrightarrow>
   extract_detail E CONFIG tc_id tc_dt tc_lon tc_lat w = (Some (Exception e), w)"
  by (simp add: extract_detail_def extract_smap_def get_smap_part_def)

text \<open>
  C1, as the code has it. When the fixes before the one at \<open>idx\<close> have been processed
  without a failure and the processing of the fix at \<open>idx\<close> raises one (in an external
  file provider, in the grid read or anywhere else under the \<^verbatim>\<open>try\<close>), the handler
  \<^verbatim>\<open>except Exception as msg: breakpoint(); exit(msg)\<close> ends the whole run at that fix: the
  run stops with the exit that carries the failure, and what it has done is what the fixes
  up to and including the failing one have done, so no later fix is processed.
\<close>

theorem failure_in_a_fix_ends_the_run:
  assumes "idx < length tc_query"
    and "fixes_before detail E tc_query idx w = (None, w1)"
    and "extract_fix detail E tc_query idx (tc_query ! idx) w1 = (Some sg, w2)"
  shows "extract_tracks detail E tc_query w = (Some (exit_on_exception sg), w2)"
proof -
  let ?body = "\<lambda>(i, tc). try_except_exit (extract_fix detail E tc_query i tc)"
  have "extract_tracks detail E tc_query w
          = for_each (take idx (enumerate 0 tc_query)
                      @ (idx, tc_query ! idx) # drop (Suc idx) (enumerate 0 tc_query)) ?body w"
    unfolding extract_tracks_def using enumerate_split [OF assms(1)] by simp
  also have "\<dots> = for_each ((idx, tc_query ! idx) # drop (Suc idx) (enumerate 0 tc_query))
                      ?body w1"
    using assms(2) by (simp add: for_each_append fixes_before_def)
  also have "\<dots> = (Some (exit_on_exception sg), w2)"
    using try_except_exit_signal
            [of "extract_fix detail E tc_query idx (tc_query ! idx)" w1 sg w2] assms(3)
    by simp
  finally show ?thesis .
qed

text \<open>The provider fails for both fixes of the second track; the fix at noon before the
  fix of 2 July has been processed when that one fails.\<close>

lemma jul2_fails:
  "extract_fix (extract_detail env_gap config_quarter) env_gap [fix_noon, fix_jul2] 1 fix_jul2 w
     = (Some (Exception (Failure ''no satellite file'')), w)"
  using provider_failure_is_raised [of env_gap "py_datetime 2015 7 2 0 0 0"
           "Failure ''no satellite file''" config_quarter "Some ''2015180N10140''"
           "141.125" "11.125" w]
  by (simp add: extract_fix_def fix_jul2_def env_gap_download Let_def)
     (simp add: env_gap_def env_example_def)

lemma jun30_fails:
  "extract_fix (extract_detail env_gap config_quarter) env_gap [fix_jun30, fix_noon] 0 fix_jun30 w
     = (Some (Exception (Failure ''no satellite file'')), w)"
  using provider_failure_is_raised [of env_gap "py_datetime 2015 6 30 6 0 0"
           "Failure ''no satellite file''" config_quarter "Some ''2015180N10140''"
           "140.125" "10.125" w]
  by (simp add: extract_fix_def fix_jun30_def fix_noon_def env_gap_download Let_def)
     (simp add: env_gap_def env_example_def)

lemma noon_before_jul2:
  "fixes_before (extract_detail env_gap config_quarter) env_gap [fix_noon, fix_jul2] 1 []
     = (None, noon_events)"
  using noon_detail [of "[]"]
  by (simp add: fixes_before_def enumerate_simps try_except_exit_def
        extract_fix_def fix_noon_def fix_jul2_def Let_def noon_events_def)
     (simp add: env_gap_def env_example_def)

theorem failure_in_a_fix_ends_the_run_witness:
  "1 < length [fix_noon, fix_jul2]
   \<and> fixes_before (extract_detail env_gap config_quarter) env_gap [fix_noon, fix_jul2] 1 []
       = (None, noon_events)
   \<and> extract_fix (extract_detail env_gap config_quarter) env_gap [fix_noon, fix_jul2] 1
         ([fix_noon, fix_jul2] ! 1) noon_events
       = (Some (Exception (Failure ''no satellite file'')), noon_events)
   \<and> extract_tracks (extract_detail env_gap config_quarter) env_gap [fix_noon, fix_jul2] []
       = (Some (SystemExit (Failure ''no satellite file'')), noon_events)"
  using failure_in_a_fix_ends_the_run [of 1 "[fix_noon, fix_jul2]"
          "extract_detail env_gap config_quarter" env_gap "[]" noon_events
          "Exception (Failure ''no satellite file'')" noon_events]
        noon_before_jul2 jul2_fails [of noon_events]
  by simp

text \<open>
  C1, as the spec states it, fails: the provider has no file for the fix of 30 June, and
  the traversal does not continue with the fix at noon of 1 July. That fix is matched and
  inserted when it is the only one, and is never processed when the fix of 30 June stands
  before it: the run has ended there, with nothing done.
\<close>

theorem traversal_stops_at_failed_fix:
  "run_match env_gap config_quarter [fix_jun30, fix_noon] []
     = (Some (SystemExit (Failure ''no satellite file'')), [])
   \<and> run_match env_gap config_quarter [fix_noon] [] = (None, noon_events)"
  using jun30_fails [of "[]"] noon_run
  by (simp add: run_match_def extract_tracks_def enumerate_simps try_except_exit_def
        noon_events_def)

subsection \<open>A window that the lookup reports unusable\<close>




end
